theory Spec2Isabelle
  imports Complex_Main "HOL-Library.AList"
begin

section \<open>The market-making cycle of \<open>SimplePMM.on_tick\<close>\<close>

text \<open>
  The strategy script \<^verbatim>\<open>scripts/multiple_pairs_on_one_exchange_using_external_source.py\<close>
  runs one reconciliation cycle per tick: it cancels unprofitable orders (Part One),
  cancels outbid orders (Part Two) and proposes new orders (Part Three).

  Conventions of the embedding.
  \<^item> The configured pairs are an input: \<open>trading_pairs\<close> lists the members of the script's
    set literal in the order in which Python iterates over it, the same in all three loops.
  \<^item> Prices, amounts, ratios and times are rationals. Python computes the thresholds with
    \<^verbatim>\<open>Decimal\<close> values built from binary floats (\<^verbatim>\<open>Decimal(1 - 0.0025)\<close>) and rounds to
    28 significant digits; the model computes the same expressions exactly.
  \<^item> The reference payload is taken after \<^verbatim>\<open>json.loads\<close>: either the call raised, or it
    produced a dictionary from trading pair to a pair of finite numbers \<open>bid\<close>, \<open>ask\<close>.
  \<^item> What the connector and the clock answer during the cycle is an input
    (\<open>get_price\<close>, \<open>get_available_balance\<close>, \<open>adjust_candidates\<close>, \<open>clock\<close>); the \<open>k\<close>-th call
    of \<^verbatim>\<open>time.time()\<close> in a cycle returns \<open>clock k\<close>.
  \<^item> The calls made on the connector and the feed are collected, in order, in \<open>actions\<close>.
    Log lines are not modelled, nor is the clock reading of the summary line at the end of
    the cycle.
  \<^item> A Python exception that leaves \<^verbatim>\<open>on_tick\<close> is \<open>Inl (error, state at the raise)\<close>.
\<close>

subsection \<open>Data\<close>

record reference =
  bid :: rat
  ask :: rat

record order =
  client_order_id :: string
  trading_pair :: string
  is_buy :: bool
  price :: rat

datatype trade_type = BUY | SELL

datatype order_type = LIMIT

record order_candidate =
  cand_trading_pair :: string
  is_maker :: bool
  cand_order_type :: order_type
  order_side :: trade_type
  amount :: rat
  cand_price :: rat

datatype action =
    StartFeed
  | Cancel string string
  | Buy string rat order_type rat
  | Sell string rat order_type rat

datatype error = KeyError | ValueError | JSONDecodeError | DecimalException

text \<open>The outcome of \<^verbatim>\<open>json.loads(self.market_making_api.bid_ask_markets_json)\<close>. The feed's
  cache is the dictionary \<^verbatim>\<open>{}\<close> until the first fetch, on which \<^verbatim>\<open>json.loads\<close> raises
  \<^verbatim>\<open>TypeError\<close>; afterwards it is the response text, which parses or raises
  \<^verbatim>\<open>JSONDecodeError\<close>.\<close>

datatype loaded =
    Raises_TypeError
  | Raises_JSONDecodeError
  | Loaded "string \<rightharpoonup> reference"

text \<open>\<open>self.orders[trading_pair][is_buy]\<close>: a dictionary from client order id to order, kept
  in insertion order. Its outer keys are exactly the configured trading pairs.\<close>

type_synonym orders = "string \<Rightarrow> bool \<Rightarrow> (string \<times> order) list"

record inputs =
  trading_pairs :: "string list"
  started :: bool
  json_loads :: loaded
  active_orders :: "order list"
  get_price :: "string \<Rightarrow> bool \<Rightarrow> rat"
  get_available_balance :: "string \<Rightarrow> rat"
  adjust_candidates :: "order_candidate list \<Rightarrow> order_candidate list"
  clock :: "nat \<Rightarrow> rat"

text \<open>The two rate-limit dictionaries of the class, the counters that \<^verbatim>\<open>on_tick\<close> keeps in
  local variables, the calls made so far and the number of clock readings taken.\<close>

record st =
  last_cancel_time :: "string \<rightharpoonup> rat"
  last_order_time :: "string \<rightharpoonup> rat"
  num_cancels_unprofitable :: nat
  num_cancels_outbid :: nat
  num_orders :: nat
  skip_proposal_for_count :: nat
  skip_proposal_for_time :: nat
  skip_proposal_for_distance :: nat
  skip_proposal_for_cancels :: nat
  skip_proposal_for_balance :: nat
  actions :: "action list"
  ticks :: nat

subsection \<open>Configuration\<close>

definition buy_place_ratio :: rat where "buy_place_ratio = 0.0050"
definition buy_place_max_distance :: rat where "buy_place_max_distance = 0.02"
definition buy_cancel_unprofitable_ratio :: rat where "buy_cancel_unprofitable_ratio = 0.0025"
definition buy_cancel_outbid_ratio :: rat where "buy_cancel_outbid_ratio = 0.0300"

definition sell_place_ratio :: rat where "sell_place_ratio = 0.0005"
definition sell_place_max_distance :: rat where "sell_place_max_distance = 0.02"
definition sell_cancel_unprofitable_ratio :: rat where "sell_cancel_unprofitable_ratio = - 0.0005"
definition sell_cancel_outbid_ratio :: rat where "sell_cancel_outbid_ratio = 0.0300"

definition time_between_orders_for_trading_pair :: rat where
  "time_between_orders_for_trading_pair = 5"

definition quote_curs :: "string \<rightharpoonup> rat" where
  "quote_curs = map_of [(''USD'', 5.0), (''USDT'', 5.0), (''BTC'', 0.000138), (''ETH'', 0.00178)]"

definition size_multiple :: rat where "size_multiple = 1.10"

subsection \<open>Class body: the rate-limit dictionaries at startup\<close>

text \<open>\<^verbatim>\<open>for trading_pair in trading_pairs: last_cancel_time[trading_pair] = 0\<close>\<close>

fun init_last_cancel_time :: "string list \<Rightarrow> (string \<rightharpoonup> rat) \<Rightarrow> (string \<rightharpoonup> rat)" where
  "init_last_cancel_time [] m = m"
| "init_last_cancel_time (tp # tps) m = init_last_cancel_time tps (m(tp \<mapsto> 0))"

text \<open>\<^verbatim>\<open>for trading_pair in trading_pairs: last_order_time[trading_pair] = time.time()\<close>,
  the \<open>k\<close>-th reading of the startup clock being \<open>clk k\<close>.\<close>

fun init_last_order_time ::
  "(nat \<Rightarrow> rat) \<Rightarrow> nat \<Rightarrow> string list \<Rightarrow> (string \<rightharpoonup> rat) \<Rightarrow> (string \<rightharpoonup> rat)" where
  "init_last_order_time clk k [] m = m"
| "init_last_order_time clk k (tp # tps) m = init_last_order_time clk (Suc k) tps (m(tp \<mapsto> clk k))"

subsection \<open>Start of a cycle\<close>

definition init_cycle :: "(string \<rightharpoonup> rat) \<Rightarrow> (string \<rightharpoonup> rat) \<Rightarrow> st" where
  "init_cycle lct lot =
     \<lparr>last_cancel_time = lct, last_order_time = lot,
      num_cancels_unprofitable = 0, num_cancels_outbid = 0, num_orders = 0,
      skip_proposal_for_count = 0, skip_proposal_for_time = 0,
      skip_proposal_for_distance = 0, skip_proposal_for_cancels = 0,
      skip_proposal_for_balance = 0, actions = [], ticks = 0\<rparr>"

text \<open>Lines 203--207: every configured pair gets two empty dictionaries, then each active
  order is stored under its pair, side and id. An order of a pair that is not configured
  raises \<^verbatim>\<open>KeyError\<close>.\<close>

fun store_orders :: "string list \<Rightarrow> order list \<Rightarrow> orders \<Rightarrow> error + orders" where
  "store_orders tps [] os = Inr os"
| "store_orders tps (ord # rest) os =
     (if trading_pair ord \<in> set tps
      then store_orders tps rest
             (os(trading_pair ord := (os (trading_pair ord))
                  (is_buy ord := AList.update (client_order_id ord) ord
                                   (os (trading_pair ord) (is_buy ord)))))
      else Inl KeyError)"

definition fetch_orders :: "inputs \<Rightarrow> error + orders" where
  "fetch_orders e = store_orders (trading_pairs e) (active_orders e) (\<lambda>tp side. [])"

subsection \<open>Part One: cancel unprofitable orders\<close>

text \<open>Lines 255--260, the loop over the open buy orders of one pair.\<close>

fun cancel_unprofitable_buys ::
  "inputs \<Rightarrow> string \<Rightarrow> rat \<Rightarrow> (string \<times> order) list \<Rightarrow> st \<Rightarrow> st" where
  "cancel_unprofitable_buys e tp ref_price_buy [] s = s"
| "cancel_unprofitable_buys e tp ref_price_buy ((cid, ord) # items) s =
     cancel_unprofitable_buys e tp ref_price_buy items
       (if price ord > ref_price_buy * (1 - buy_cancel_unprofitable_ratio)
        then s\<lparr>actions := actions s @ [Cancel tp (client_order_id ord)],
               num_cancels_unprofitable := num_cancels_unprofitable s + 1,
               last_cancel_time := (last_cancel_time s)(tp \<mapsto> clock e (ticks s)),
               ticks := Suc (ticks s)\<rparr>
        else s)"

text \<open>Lines 261--266, the loop over the open sell orders of one pair.\<close>

fun cancel_unprofitable_sells ::
  "inputs \<Rightarrow> string \<Rightarrow> rat \<Rightarrow> (string \<times> order) list \<Rightarrow> st \<Rightarrow> st" where
  "cancel_unprofitable_sells e tp ref_price_sell [] s = s"
| "cancel_unprofitable_sells e tp ref_price_sell ((cid, ord) # items) s =
     cancel_unprofitable_sells e tp ref_price_sell items
       (if price ord < ref_price_sell * (1 + sell_cancel_unprofitable_ratio)
        then s\<lparr>actions := actions s @ [Cancel tp (client_order_id ord)],
               num_cancels_unprofitable := num_cancels_unprofitable s + 1,
               last_cancel_time := (last_cancel_time s)(tp \<mapsto> clock e (ticks s)),
               ticks := Suc (ticks s)\<rparr>
        else s)"

text \<open>Lines 231--266, the loop over the pairs. A pair that the payload does not list raises
  \<^verbatim>\<open>KeyError\<close> at line 238.\<close>

fun part_one ::
  "inputs \<Rightarrow> (string \<rightharpoonup> reference) \<Rightarrow> orders \<Rightarrow> string list \<Rightarrow> st \<Rightarrow> (error \<times> st) + st" where
  "part_one e d os [] s = Inr s"
| "part_one e d os (tp # tps) s =
     (case d tp of
        None \<Rightarrow> Inl (KeyError, s)
      | Some bid_ask_dict \<Rightarrow>
          let ref_price_buy = bid bid_ask_dict;
              ref_price_sell = ask bid_ask_dict
          in if ref_price_buy \<le> 0 \<or> ref_price_sell \<le> 0
             then part_one e d os tps s
             else part_one e d os tps
                    (cancel_unprofitable_sells e tp ref_price_sell (os tp False)
                       (cancel_unprofitable_buys e tp ref_price_buy (os tp True) s)))"

subsection \<open>Part Two: cancel outbid orders\<close>

text \<open>Lines 307--312.\<close>

fun cancel_outbid_buys ::
  "inputs \<Rightarrow> string \<Rightarrow> rat \<Rightarrow> (string \<times> order) list \<Rightarrow> st \<Rightarrow> st" where
  "cancel_outbid_buys e tp orderbook_bid [] s = s"
| "cancel_outbid_buys e tp orderbook_bid ((cid, ord) # items) s =
     cancel_outbid_buys e tp orderbook_bid items
       (if price ord < orderbook_bid * (1 - buy_cancel_outbid_ratio)
        then s\<lparr>actions := actions s @ [Cancel tp (client_order_id ord)],
               num_cancels_outbid := num_cancels_outbid s + 1,
               last_cancel_time := (last_cancel_time s)(tp \<mapsto> clock e (ticks s)),
               ticks := Suc (ticks s)\<rparr>
        else s)"

text \<open>Lines 313--318.\<close>

fun cancel_outbid_sells ::
  "inputs \<Rightarrow> string \<Rightarrow> rat \<Rightarrow> (string \<times> order) list \<Rightarrow> st \<Rightarrow> st" where
  "cancel_outbid_sells e tp orderbook_ask [] s = s"
| "cancel_outbid_sells e tp orderbook_ask ((cid, ord) # items) s =
     cancel_outbid_sells e tp orderbook_ask items
       (if price ord > orderbook_ask * (1 + sell_cancel_outbid_ratio)
        then s\<lparr>actions := actions s @ [Cancel tp (client_order_id ord)],
               num_cancels_outbid := num_cancels_outbid s + 1,
               last_cancel_time := (last_cancel_time s)(tp \<mapsto> clock e (ticks s)),
               ticks := Suc (ticks s)\<rparr>
        else s)"

text \<open>Lines 283--318.\<close>

fun part_two ::
  "inputs \<Rightarrow> (string \<rightharpoonup> reference) \<Rightarrow> orders \<Rightarrow> string list \<Rightarrow> st \<Rightarrow> (error \<times> st) + st" where
  "part_two e d os [] s = Inr s"
| "part_two e d os (tp # tps) s =
     (case d tp of
        None \<Rightarrow> Inl (KeyError, s)
      | Some bid_ask_dict \<Rightarrow>
          let ref_price_buy = bid bid_ask_dict;
              ref_price_sell = ask bid_ask_dict;
              orderbook_bid = get_price e tp False;
              orderbook_ask = get_price e tp True
          in if ref_price_buy \<le> 0 \<or> ref_price_sell \<le> 0
             then part_two e d os tps s
             else part_two e d os tps
                    (cancel_outbid_sells e tp orderbook_ask (os tp False)
                       (cancel_outbid_buys e tp orderbook_bid (os tp True) s)))"

subsection \<open>Part Three: propose new orders\<close>

text \<open>Lines 384 and 389: the value is an \<^verbatim>\<open>int\<close>, \<^verbatim>\<open>float\<close> or \<^verbatim>\<open>Decimal\<close> and equals
  itself. A product of two \<^verbatim>\<open>Decimal\<close>s is a \<^verbatim>\<open>Decimal\<close>, so for the finite numbers of this
  model only the self-comparison remains.\<close>

definition is_number :: "rat \<Rightarrow> bool" where
  "is_number x \<longleftrightarrow> x = x"

text \<open>\<^verbatim>\<open>str.split(sep)\<close> for a one-character separator.\<close>

fun str_split :: "char \<Rightarrow> string \<Rightarrow> string list" where
  "str_split sep [] = [[]]"
| "str_split sep (c # cs) =
     (if c = sep then [] # str_split sep cs
      else (case str_split sep cs of
              [] \<Rightarrow> [[c]]
            | w # ws \<Rightarrow> (c # w) # ws))"

text \<open>Lines 430--431 and 467--468: the bookkeeping of an accepted candidate.\<close>

definition accept :: "inputs \<Rightarrow> string \<Rightarrow> st \<Rightarrow> st" where
  "accept e tp s =
     s\<lparr>num_orders := num_orders s + 1,
       last_order_time := (last_order_time s)(tp \<mapsto> clock e (ticks s)),
       ticks := Suc (ticks s)\<rparr>"

text \<open>Lines 397--433, the buy side of one pair.\<close>

definition buy_side ::
  "inputs \<Rightarrow> orders \<Rightarrow> string \<Rightarrow> string \<Rightarrow> rat \<Rightarrow> order_candidate list \<Rightarrow> st
     \<Rightarrow> (error \<times> st) + (order_candidate list \<times> st)" where
  "buy_side e os tp quote_cur buy_price_max proposal s =
     (let orderbook_bid = get_price e tp False in
      if length (os tp True) = 0 \<and> tp \<noteq> ''IRIS-BTC'' then
        if orderbook_bid > buy_price_max * (1 + buy_place_max_distance)
        then Inr (proposal, s\<lparr>skip_proposal_for_distance := skip_proposal_for_distance s + 1\<rparr>)
        else
          let buy_price = (if orderbook_bid < buy_price_max
                           then (buy_price_max + orderbook_bid) / 2
                           else buy_price_max)
          in (case quote_curs quote_cur of
                None \<Rightarrow> Inl (KeyError, s)
              | Some size_in_quote_units \<Rightarrow>
                  if buy_price = 0 then Inl (DecimalException, s)
                  else
                    let order_amount = size_in_quote_units * size_multiple / buy_price;
                        available_to_buy_in_quote = get_available_balance e quote_cur;
                        available_to_buy_in_base = available_to_buy_in_quote / buy_price
                    in if order_amount < available_to_buy_in_base * 0.99
                       then Inr (proposal @
                                   [\<lparr>cand_trading_pair = tp, is_maker = True,
                                     cand_order_type = LIMIT, order_side = BUY,
                                     amount = order_amount, cand_price = buy_price\<rparr>],
                                 accept e tp s)
                       else Inr (proposal,
                                 s\<lparr>skip_proposal_for_balance := skip_proposal_for_balance s + 1\<rparr>))
      else Inr (proposal, s))"

text \<open>Lines 435--470, the sell side of one pair.\<close>

definition sell_side ::
  "inputs \<Rightarrow> orders \<Rightarrow> string \<Rightarrow> string \<Rightarrow> string \<Rightarrow> rat \<Rightarrow> order_candidate list \<Rightarrow> st
     \<Rightarrow> (error \<times> st) + (order_candidate list \<times> st)" where
  "sell_side e os tp base_cur quote_cur sell_price_min proposal s =
     (let orderbook_ask = get_price e tp True in
      if length (os tp False) = 0 then
        if orderbook_ask < sell_price_min * (1 - sell_place_max_distance)
        then Inr (proposal, s\<lparr>skip_proposal_for_distance := skip_proposal_for_distance s + 1\<rparr>)
        else
          let sell_price = (if orderbook_ask > sell_price_min
                            then (sell_price_min + orderbook_ask) / 2
                            else sell_price_min);
              available_to_sell_in_base = get_available_balance e base_cur;
              order_amount = available_to_sell_in_base
          in (case quote_curs quote_cur of
                None \<Rightarrow> Inl (KeyError, s)
              | Some size_in_quote_units \<Rightarrow>
                  if order_amount \<ge> size_in_quote_units
                  then Inr (proposal @
                              [\<lparr>cand_trading_pair = tp, is_maker = True,
                                cand_order_type = LIMIT, order_side = SELL,
                                amount = order_amount, cand_price = sell_price\<rparr>],
                            accept e tp s)
                  else Inr (proposal,
                            s\<lparr>skip_proposal_for_balance := skip_proposal_for_balance s + 1\<rparr>))
      else Inr (proposal, s))"

text \<open>Lines 489--499: \<^verbatim>\<open>place_orders\<close> and \<^verbatim>\<open>place_order\<close>.\<close>

definition place_order :: "order_candidate \<Rightarrow> action" where
  "place_order c =
     (if order_side c = SELL
      then Sell (cand_trading_pair c) (amount c) (cand_order_type c) (cand_price c)
      else Buy (cand_trading_pair c) (amount c) (cand_order_type c) (cand_price c))"

definition place_orders :: "order_candidate list \<Rightarrow> st \<Rightarrow> st" where
  "place_orders proposal s = s\<lparr>actions := actions s @ map place_order proposal\<rparr>"

text \<open>Lines 349--476, the body of the Part Three loop for one pair.\<close>

definition propose_pair ::
  "inputs \<Rightarrow> (string \<rightharpoonup> reference) \<Rightarrow> orders \<Rightarrow> string \<Rightarrow> st \<Rightarrow> (error \<times> st) + st" where
  "propose_pair e d os tp s =
     (if num_orders s > 0
      then Inr (s\<lparr>skip_proposal_for_count := skip_proposal_for_count s + 1\<rparr>)
      else
        let now = clock e (ticks s);
            s1 = s\<lparr>ticks := Suc (ticks s)\<rparr>
        in (case last_order_time s1 tp of
              None \<Rightarrow> Inl (KeyError, s1)
            | Some t \<Rightarrow>
                if now < t + time_between_orders_for_trading_pair
                then Inr (s1\<lparr>skip_proposal_for_time := skip_proposal_for_time s1 + 1\<rparr>)
                else
                  (case d tp of
                     None \<Rightarrow> Inl (KeyError, s1)
                   | Some bid_ask_dict \<Rightarrow>
                       let ref_price_buy = bid bid_ask_dict;
                           ref_price_sell = ask bid_ask_dict;
                           buy_price_max = ref_price_buy * (1 - buy_place_ratio);
                           sell_price_min = ref_price_sell * (1 + sell_place_ratio)
                       in if \<not> is_number buy_price_max then Inr s1
                          else if \<not> is_number sell_price_min then Inr s1
                          else
                            (case str_split CHR ''-'' tp of
                               [base_cur, quote_cur] \<Rightarrow>
                                 (case buy_side e os tp quote_cur buy_price_max [] s1 of
                                    Inl x \<Rightarrow> Inl x
                                  | Inr (proposal, s2) \<Rightarrow>
                                      (case sell_side e os tp base_cur quote_cur sell_price_min
                                              proposal s2 of
                                         Inl x \<Rightarrow> Inl x
                                       | Inr (proposal', s3) \<Rightarrow>
                                           Inr (place_orders (adjust_candidates e proposal') s3)))
                             | _ \<Rightarrow> Inl (ValueError, s1)))))"

text \<open>Lines 344--476, the loop over the pairs.\<close>

fun part_three ::
  "inputs \<Rightarrow> (string \<rightharpoonup> reference) \<Rightarrow> orders \<Rightarrow> string list \<Rightarrow> st \<Rightarrow> (error \<times> st) + st" where
  "part_three e d os [] s = Inr s"
| "part_three e d os (tp # tps) s =
     (case propose_pair e d os tp s of
        Inl x \<Rightarrow> Inl x
      | Inr s' \<Rightarrow> part_three e d os tps s')"

subsection \<open>The cycle\<close>

text \<open>Lines 177--476. The flag \<^verbatim>\<open>cancels_in_progress\<close> is \<open>1\<close> once a phase has cancelled.\<close>

definition on_tick ::
  "inputs \<Rightarrow> (string \<rightharpoonup> rat) \<Rightarrow> (string \<rightharpoonup> rat) \<Rightarrow> (error \<times> st) + st" where
  "on_tick e lct lot =
     (let s = init_cycle lct lot in
      if \<not> started e then Inr (s\<lparr>actions := actions s @ [StartFeed]\<rparr>)
      else
        (case json_loads e of
           Raises_TypeError \<Rightarrow> Inr s
         | Raises_JSONDecodeError \<Rightarrow> Inl (JSONDecodeError, s)
         | Loaded d \<Rightarrow>
             (case fetch_orders e of
                Inl err \<Rightarrow> Inl (err, s)
              | Inr os \<Rightarrow>
                  (case part_one e d os (trading_pairs e) s of
                     Inl x \<Rightarrow> Inl x
                   | Inr s1 \<Rightarrow>
                       let cancels_in_progress = (if num_cancels_unprofitable s1 > 0 then 1 else 0 :: nat)
                       in (case (if cancels_in_progress = 0
                                 then part_two e d os (trading_pairs e) s1
                                 else Inr s1) of
                             Inl x \<Rightarrow> Inl x
                           | Inr s2 \<Rightarrow>
                               let cancels_in_progress' =
                                     (if num_cancels_outbid s2 > 0 then 1 else cancels_in_progress)
                               in if cancels_in_progress' = 0
                                  then part_three e d os (trading_pairs e) s2
                                  else Inr s2)))))"

text \<open>The state a cycle ends in, whether it returned or raised.\<close>

definition final :: "(error \<times> st) + st \<Rightarrow> st" where
  "final r = (case r of Inl (err, s) \<Rightarrow> s | Inr s \<Rightarrow> s)"

text \<open>Which exception, if any, left the cycle.\<close>

definition raised :: "(error \<times> st) + st \<Rightarrow> error option" where
  "raised r = (case r of Inl (err, s) \<Rightarrow> Some err | Inr s \<Rightarrow> None)"

subsection \<open>Reference definitions for the properties\<close>

text \<open>The bookkeeping the source does at one cancellation \<open>c = (pair, order id)\<close>: the
  call \<^verbatim>\<open>self.cancel\<close>, the counter of the phase, and \<^verbatim>\<open>last_cancel_time[pair] = time.time()\<close>.
  It is used to state what the loops of Part One and Part Two amount to.\<close>

definition record_cancel :: "bool \<Rightarrow> inputs \<Rightarrow> st \<Rightarrow> string \<times> string \<Rightarrow> st" where
  "record_cancel unprofitable e s c =
     (if unprofitable
      then s\<lparr>actions := actions s @ [Cancel (fst c) (snd c)],
             num_cancels_unprofitable := num_cancels_unprofitable s + 1,
             last_cancel_time := (last_cancel_time s)(fst c \<mapsto> clock e (ticks s)),
             ticks := Suc (ticks s)\<rparr>
      else s\<lparr>actions := actions s @ [Cancel (fst c) (snd c)],
             num_cancels_outbid := num_cancels_outbid s + 1,
             last_cancel_time := (last_cancel_time s)(fst c \<mapsto> clock e (ticks s)),
             ticks := Suc (ticks s)\<rparr>)"

text \<open>The cancellations the specification asks of Part One, in the order of the pairs:
  for a pair with positive reference bid and ask, the open buy orders priced above
  \<open>ref_bid * (1 - buy_cancel_unprofitable_ratio)\<close>, then the open sell orders priced below
  \<open>ref_ask * (1 + sell_cancel_unprofitable_ratio)\<close>.\<close>

definition spec_unprofitable_cancels ::
  "(string \<rightharpoonup> reference) \<Rightarrow> orders \<Rightarrow> string list \<Rightarrow> (string \<times> string) list" where
  "spec_unprofitable_cancels d os tps =
     concat (map (\<lambda>tp. case d tp of
                          None \<Rightarrow> []
                        | Some r \<Rightarrow>
                            if 0 < bid r \<and> 0 < ask r
                            then map (\<lambda>(cid, ord). (tp, client_order_id ord))
                                   (filter (\<lambda>(cid, ord). price ord > bid r * (1 - buy_cancel_unprofitable_ratio))
                                      (os tp True)) @
                                 map (\<lambda>(cid, ord). (tp, client_order_id ord))
                                   (filter (\<lambda>(cid, ord). price ord < ask r * (1 + sell_cancel_unprofitable_ratio))
                                      (os tp False))
                            else []) tps)"

text \<open>The cancellations the specification asks of Part Two: the open buy orders priced
  below \<open>top_of_book.bid * (1 - buy_cancel_outbid_ratio)\<close>, then the open sell orders priced
  above \<open>top_of_book.ask * (1 + sell_cancel_outbid_ratio)\<close>.\<close>

definition spec_outbid_cancels ::
  "inputs \<Rightarrow> (string \<rightharpoonup> reference) \<Rightarrow> orders \<Rightarrow> string list \<Rightarrow> (string \<times> string) list" where
  "spec_outbid_cancels e d os tps =
     concat (map (\<lambda>tp. case d tp of
                          None \<Rightarrow> []
                        | Some r \<Rightarrow>
                            if 0 < bid r \<and> 0 < ask r
                            then map (\<lambda>(cid, ord). (tp, client_order_id ord))
                                   (filter (\<lambda>(cid, ord). price ord < get_price e tp False * (1 - buy_cancel_outbid_ratio))
                                      (os tp True)) @
                                 map (\<lambda>(cid, ord). (tp, client_order_id ord))
                                   (filter (\<lambda>(cid, ord). price ord > get_price e tp True * (1 + sell_cancel_outbid_ratio))
                                      (os tp False))
                            else []) tps)"

text \<open>The calls that place an order on the exchange.\<close>

fun places_order :: "action \<Rightarrow> bool" where
  "places_order (Buy tp a t p) = True"
| "places_order (Sell tp a t p) = True"
| "places_order StartFeed = False"
| "places_order (Cancel tp cid) = False"

text \<open>Part Three did nothing in a cycle that started with \<open>last_order_time = lot\<close>: no
  candidate accepted, no skip counted, \<open>last_order_time\<close> as before, and no order placed.\<close>

definition proposals_idle :: "(string \<rightharpoonup> rat) \<Rightarrow> st \<Rightarrow> bool" where
  "proposals_idle lot s \<longleftrightarrow>
     num_orders s = 0 \<and> skip_proposal_for_count s = 0 \<and> skip_proposal_for_time s = 0 \<and>
     skip_proposal_for_distance s = 0 \<and> skip_proposal_for_balance s = 0 \<and>
     last_order_time s = lot \<and> list_all (\<lambda>a. \<not> places_order a) (actions s)"

text \<open>Two states that differ at most in \<open>last_cancel_time\<close>.\<close>

definition same_but_cancel_time :: "st \<Rightarrow> st \<Rightarrow> bool" where
  "same_but_cancel_time s t \<longleftrightarrow>
     s\<lparr>last_cancel_time := Map.empty\<rparr> = t\<lparr>last_cancel_time := Map.empty\<rparr>"

subsection \<open>Concrete cycles\<close>

text \<open>A started feed whose cache has not been filled yet, with one open buy order on the
  exchange.\<close>

definition feed_not_ready :: inputs where
  "feed_not_ready =
     \<lparr>trading_pairs = [''DUSK-BTC''], started = True, json_loads = Raises_TypeError,
      active_orders = [\<lparr>client_order_id = ''b1'', trading_pair = ''DUSK-BTC'',
                        is_buy = True, price = 1\<rparr>],
      get_price = (\<lambda>tp side. if side then 0.0012 else 0.0010),
      get_available_balance = (\<lambda>cur. 10),
      adjust_candidates = (\<lambda>cs. cs),
      clock = (\<lambda>k. 100)\<rparr>"

text \<open>Two configured pairs with fresh reference prices, no open order, ample balances, a
  budget checker that lets every candidate through, and a clock that advances by one
  second per reading from \<open>100\<close>.\<close>

definition two_pairs :: inputs where
  "two_pairs =
     \<lparr>trading_pairs = [''DUSK-BTC'', ''QLC-BTC''], started = True,
      json_loads = Loaded [''DUSK-BTC'' \<mapsto> \<lparr>bid = 0.0010, ask = 0.0011\<rparr>,
                           ''QLC-BTC'' \<mapsto> \<lparr>bid = 0.0020, ask = 0.0022\<rparr>],
      active_orders = [],
      get_price = (\<lambda>tp side. if tp = ''DUSK-BTC'' then (if side then 0.0012 else 0.00098)
                               else (if side then 0.0024 else 0.0019)),
      get_available_balance = (\<lambda>cur. 10),
      adjust_candidates = (\<lambda>cs. cs),
      clock = (\<lambda>k. 100 + of_nat k)\<rparr>"

definition two_pairs_reference :: "string \<rightharpoonup> reference" where
  "two_pairs_reference = [''DUSK-BTC'' \<mapsto> \<lparr>bid = 0.0010, ask = 0.0011\<rparr>,
                           ''QLC-BTC'' \<mapsto> \<lparr>bid = 0.0020, ask = 0.0022\<rparr>]"

text \<open>A buy order above the unprofitable threshold \<open>0.0010 * 0.9975\<close>, a sell order above
  the outbid threshold \<open>0.0024 * 1.03\<close>, and a buy order that neither phase cancels.\<close>

definition unprofitable_buy :: order where
  "unprofitable_buy =
     \<lparr>client_order_id = ''b1'', trading_pair = ''DUSK-BTC'', is_buy = True, price = 0.00105\<rparr>"

definition outbid_sell :: order where
  "outbid_sell =
     \<lparr>client_order_id = ''s1'', trading_pair = ''QLC-BTC'', is_buy = False, price = 0.0030\<rparr>"

definition kept_buy :: order where
  "kept_buy =
     \<lparr>client_order_id = ''b2'', trading_pair = ''QLC-BTC'', is_buy = True, price = 0.0019\<rparr>"


definition never_cancelled :: "string \<rightharpoonup> rat" where
  "never_cancelled = [''DUSK-BTC'' \<mapsto> 0, ''QLC-BTC'' \<mapsto> 0]"

definition ordered_at_50 :: "string \<rightharpoonup> rat" where
  "ordered_at_50 = [''DUSK-BTC'' \<mapsto> 50, ''QLC-BTC'' \<mapsto> 50]"

text \<open>No order is open.\<close>

definition no_orders :: orders where
  "no_orders = (\<lambda>tp side. [])"

text \<open>The feed marks \<open>DUSK-BTC\<close> as stale with a zero bid and a zero ask.\<close>

definition stale_dusk :: inputs where
  "stale_dusk =
     two_pairs\<lparr>json_loads := Loaded [''DUSK-BTC'' \<mapsto> \<lparr>bid = 0, ask = 0\<rparr>,
                                      ''QLC-BTC'' \<mapsto> \<lparr>bid = 0.0020, ask = 0.0022\<rparr>]\<rparr>"

text \<open>The payload has no entry for \<open>DUSK-BTC\<close>, the first pair of the loop, and \<open>QLC-BTC\<close> has
  an open buy order above the unprofitable threshold \<open>0.0020 * 0.9975\<close>.\<close>

definition missing_dusk :: inputs where
  "missing_dusk =
     two_pairs\<lparr>json_loads := Loaded [''QLC-BTC'' \<mapsto> \<lparr>bid = 0.0020, ask = 0.0022\<rparr>],
               active_orders := [\<lparr>client_order_id = ''b3'', trading_pair = ''QLC-BTC'',
                                   is_buy = True, price = 0.0021\<rparr>]\<rparr>"


text \<open>The configured pairs at a moment when the clock stands at \<open>100\<close>.\<close>

definition two_pairs_at_100 :: inputs where
  "two_pairs_at_100 = two_pairs\<lparr>clock := (\<lambda>k. 100)\<rparr>"

section \<open>Properties\<close>

subsection \<open>The cancellation loops as a fold\<close>

lemma cancel_unprofitable_buys_foldl:
  "cancel_unprofitable_buys e tp rb items s =
     foldl (record_cancel True e) s
       (map (\<lambda>(cid, ord). (tp, client_order_id ord))
          (filter (\<lambda>(cid, ord). price ord > rb * (1 - buy_cancel_unprofitable_ratio)) items))"
  by (induction items arbitrary: s) (auto simp: record_cancel_def)

lemma cancel_unprofitable_sells_foldl:
  "cancel_unprofitable_sells e tp rs items s =
     foldl (record_cancel True e) s
       (map (\<lambda>(cid, ord). (tp, client_order_id ord))
          (filter (\<lambda>(cid, ord). price ord < rs * (1 + sell_cancel_unprofitable_ratio)) items))"
  by (induction items arbitrary: s) (auto simp: record_cancel_def)

lemma cancel_outbid_buys_foldl:
  "cancel_outbid_buys e tp ob items s =
     foldl (record_cancel False e) s
       (map (\<lambda>(cid, ord). (tp, client_order_id ord))
          (filter (\<lambda>(cid, ord). price ord < ob * (1 - buy_cancel_outbid_ratio)) items))"
  by (induction items arbitrary: s) (auto simp: record_cancel_def)

lemma cancel_outbid_sells_foldl:
  "cancel_outbid_sells e tp oa items s =
     foldl (record_cancel False e) s
       (map (\<lambda>(cid, ord). (tp, client_order_id ord))
          (filter (\<lambda>(cid, ord). price ord > oa * (1 + sell_cancel_outbid_ratio)) items))"
  by (induction items arbitrary: s) (auto simp: record_cancel_def)

lemma part_one_foldl:
  "part_one e d os tps s =
     (if \<forall>tp \<in> set tps. d tp \<noteq> None
      then Inr (foldl (record_cancel True e) s (spec_unprofitable_cancels d os tps))
      else Inl (KeyError, foldl (record_cancel True e) s
                  (spec_unprofitable_cancels d os (takeWhile (\<lambda>tp. d tp \<noteq> None) tps))))"
proof (induction tps arbitrary: s)
  case Nil
  show ?case by (simp add: spec_unprofitable_cancels_def)
next
  case (Cons tp tps)
  show ?case
  proof (cases "d tp")
    case None
    then show ?thesis by (simp add: spec_unprofitable_cancels_def)
  next
    case (Some r)
    have unfold: "spec_unprofitable_cancels d os (tp # ps) =
        (if 0 < bid r \<and> 0 < ask r
         then map (\<lambda>(cid, ord). (tp, client_order_id ord))
                (filter (\<lambda>(cid, ord). price ord > bid r * (1 - buy_cancel_unprofitable_ratio)) (os tp True)) @
              map (\<lambda>(cid, ord). (tp, client_order_id ord))
                (filter (\<lambda>(cid, ord). price ord < ask r * (1 + sell_cancel_unprofitable_ratio)) (os tp False))
         else []) @ spec_unprofitable_cancels d os ps" for ps
      using Some by (simp add: spec_unprofitable_cancels_def)
    show ?thesis
      using Some
      by (auto simp add: Cons.IH unfold cancel_unprofitable_buys_foldl
            cancel_unprofitable_sells_foldl Let_def not_le not_less)
  qed
qed

lemma part_two_foldl:
  "part_two e d os tps s =
     (if \<forall>tp \<in> set tps. d tp \<noteq> None
      then Inr (foldl (record_cancel False e) s (spec_outbid_cancels e d os tps))
      else Inl (KeyError, foldl (record_cancel False e) s
                  (spec_outbid_cancels e d os (takeWhile (\<lambda>tp. d tp \<noteq> None) tps))))"
proof (induction tps arbitrary: s)
  case Nil
  show ?case by (simp add: spec_outbid_cancels_def)
next
  case (Cons tp tps)
  show ?case
  proof (cases "d tp")
    case None
    then show ?thesis by (simp add: spec_outbid_cancels_def)
  next
    case (Some r)
    have unfold: "spec_outbid_cancels e d os (tp # ps) =
        (if 0 < bid r \<and> 0 < ask r
         then map (\<lambda>(cid, ord). (tp, client_order_id ord))
                (filter (\<lambda>(cid, ord). price ord < get_price e tp False * (1 - buy_cancel_outbid_ratio)) (os tp True)) @
              map (\<lambda>(cid, ord). (tp, client_order_id ord))
                (filter (\<lambda>(cid, ord). price ord > get_price e tp True * (1 + sell_cancel_outbid_ratio)) (os tp False))
         else []) @ spec_outbid_cancels e d os ps" for ps
      using Some by (simp add: spec_outbid_cancels_def)
    show ?thesis
      using Some
      by (auto simp add: Cons.IH unfold cancel_outbid_buys_foldl cancel_outbid_sells_foldl
            Let_def not_le not_less)
  qed
qed

lemma foldl_record_cancel_actions:
  "actions (foldl (record_cancel b e) s cs) = actions s @ map (\<lambda>(tp, cid). Cancel tp cid) cs"
  by (induction cs arbitrary: s) (auto simp: record_cancel_def Let_def)


lemma foldl_record_cancel_unprofitable:
  "num_cancels_unprofitable (foldl (record_cancel b e) s cs) =
     num_cancels_unprofitable s + (if b then length cs else 0)"
  by (induction cs arbitrary: s) (auto simp: record_cancel_def Let_def)

lemma foldl_record_cancel_outbid:
  "num_cancels_outbid (foldl (record_cancel b e) s cs) =
     num_cancels_outbid s + (if b then 0 else length cs)"
  by (induction cs arbitrary: s) (auto simp: record_cancel_def Let_def)

lemma foldl_record_cancel_frame:
  "last_order_time (foldl (record_cancel b e) s cs) = last_order_time s \<and>
   num_orders (foldl (record_cancel b e) s cs) = num_orders s \<and>
   skip_proposal_for_count (foldl (record_cancel b e) s cs) = skip_proposal_for_count s \<and>
   skip_proposal_for_time (foldl (record_cancel b e) s cs) = skip_proposal_for_time s \<and>
   skip_proposal_for_distance (foldl (record_cancel b e) s cs) = skip_proposal_for_distance s \<and>
   skip_proposal_for_cancels (foldl (record_cancel b e) s cs) = skip_proposal_for_cancels s \<and>
   skip_proposal_for_balance (foldl (record_cancel b e) s cs) = skip_proposal_for_balance s"
  by (induction cs arbitrary: s) (auto simp: record_cancel_def Let_def)





subsection \<open>Part Three leaves the cancellation counters alone\<close>

lemma buy_side_cancel_counters:
  "buy_side e os tp q bpm p s = Inr (p', s') \<Longrightarrow>
     num_cancels_unprofitable s' = num_cancels_unprofitable s \<and>
     num_cancels_outbid s' = num_cancels_outbid s"
  "buy_side e os tp q bpm p s = Inl (err, s') \<Longrightarrow>
     num_cancels_unprofitable s' = num_cancels_unprofitable s \<and>
     num_cancels_outbid s' = num_cancels_outbid s"
  by (auto simp: buy_side_def accept_def Let_def split: if_splits option.splits)

lemma sell_side_cancel_counters:
  "sell_side e os tp b q spm p s = Inr (p', s') \<Longrightarrow>
     num_cancels_unprofitable s' = num_cancels_unprofitable s \<and>
     num_cancels_outbid s' = num_cancels_outbid s"
  "sell_side e os tp b q spm p s = Inl (err, s') \<Longrightarrow>
     num_cancels_unprofitable s' = num_cancels_unprofitable s \<and>
     num_cancels_outbid s' = num_cancels_outbid s"
  by (auto simp: sell_side_def accept_def Let_def split: if_splits option.splits)

lemma propose_pair_cancel_counters:
  "num_cancels_unprofitable (final (propose_pair e d os tp s)) = num_cancels_unprofitable s \<and>
   num_cancels_outbid (final (propose_pair e d os tp s)) = num_cancels_outbid s"
  by (auto simp: propose_pair_def final_def place_orders_def Let_def
           dest!: buy_side_cancel_counters sell_side_cancel_counters
           split: option.splits list.splits sum.splits prod.splits)

lemma part_three_cancel_counters:
  "num_cancels_unprofitable (final (part_three e d os tps s)) = num_cancels_unprofitable s \<and>
   num_cancels_outbid (final (part_three e d os tps s)) = num_cancels_outbid s"
proof (induction tps arbitrary: s)
  case Nil
  show ?case by (simp add: final_def)
next
  case (Cons tp tps)
  show ?case
  proof (cases "propose_pair e d os tp s")
    case (Inl x)
    then show ?thesis
      using propose_pair_cancel_counters [of e d os tp s] by simp
  next
    case (Inr s')
    then show ?thesis
      using propose_pair_cancel_counters [of e d os tp s] Cons.IH [of s'] by (simp add: final_def)
  qed
qed

lemma final_part_one:
  "\<exists>cs. final (part_one e d os tps s) = foldl (record_cancel True e) s cs"
  by (auto simp: part_one_foldl final_def)

lemma final_part_two:
  "\<exists>cs. final (part_two e d os tps s) = foldl (record_cancel False e) s cs"
  by (auto simp: part_two_foldl final_def)

lemma idle_after_cancels:
  "proposals_idle lot s \<Longrightarrow> proposals_idle lot (foldl (record_cancel b e) s cs)"
  by (auto simp add: proposals_idle_def foldl_record_cancel_frame foldl_record_cancel_actions
        list_all_iff split_def)

lemma idle_init: "proposals_idle lot (init_cycle lct lot)"
  by (simp add: proposals_idle_def init_cycle_def)

subsection \<open>The shape of a cycle\<close>

lemma on_tick_cases:
  "(proposals_idle lot (final (on_tick e lct lot)) \<and>
    (0 < num_cancels_unprofitable (final (on_tick e lct lot)) \<longrightarrow>
       num_cancels_outbid (final (on_tick e lct lot)) = 0)) \<or>
   (\<exists>d os s2. proposals_idle lot s2 \<and>
      num_cancels_unprofitable s2 = 0 \<and> num_cancels_outbid s2 = 0 \<and>
      on_tick e lct lot = part_three e d os (trading_pairs e) s2)"
proof (cases "started e")
  case False
  then show ?thesis
    by (simp add: on_tick_def final_def init_cycle_def proposals_idle_def)
next
  case True
  note st = this
  show ?thesis
  proof (cases "json_loads e")
    case Raises_TypeError
    with st show ?thesis by (simp add: on_tick_def final_def idle_init init_cycle_def proposals_idle_def)
  next
    case Raises_JSONDecodeError
    with st show ?thesis by (simp add: on_tick_def final_def idle_init init_cycle_def proposals_idle_def)
  next
    case (Loaded d)
    note ld = this
    show ?thesis
    proof (cases "fetch_orders e")
      case (Inl err)
      with st ld show ?thesis by (simp add: on_tick_def final_def idle_init init_cycle_def proposals_idle_def)
    next
      case (Inr os)
      note fo = this
      let ?s0 = "init_cycle lct lot"
      obtain cs1 where one: "final (part_one e d os (trading_pairs e) ?s0) =
          foldl (record_cancel True e) ?s0 cs1"
        using final_part_one by blast
      have idle1: "proposals_idle lot (final (part_one e d os (trading_pairs e) ?s0))"
        by (simp add: one idle_after_cancels idle_init)
      have out1: "num_cancels_outbid (final (part_one e d os (trading_pairs e) ?s0)) = 0"
        unfolding one by (simp add: foldl_record_cancel_outbid init_cycle_def)
      show ?thesis
      proof (cases "part_one e d os (trading_pairs e) ?s0")
        case (Inl x)
        then have "on_tick e lct lot = Inl x"
          using st ld fo by (simp add: on_tick_def)
        then show ?thesis using idle1 out1 Inl by simp
      next
        case (Inr s1)
        note p1 = this
        have s1: "proposals_idle lot s1" "num_cancels_outbid s1 = 0"
          using idle1 out1 p1 by (simp_all add: final_def)
        show ?thesis
        proof (cases "num_cancels_unprofitable s1 > 0")
          case True
          then have "on_tick e lct lot = Inr s1"
            using st ld fo p1 by (simp add: on_tick_def Let_def)
          then show ?thesis using s1 by (simp add: final_def)
        next
          case False
          note zero1 = this
          obtain cs2 where two: "final (part_two e d os (trading_pairs e) s1) =
              foldl (record_cancel False e) s1 cs2"
            using final_part_two by blast
          have idle2: "proposals_idle lot (final (part_two e d os (trading_pairs e) s1))"
            by (simp add: two idle_after_cancels s1)
          have unp2: "num_cancels_unprofitable (final (part_two e d os (trading_pairs e) s1)) = 0"
            unfolding two using zero1 by (simp add: foldl_record_cancel_unprofitable)
          show ?thesis
          proof (cases "part_two e d os (trading_pairs e) s1")
            case (Inl x)
            then have "on_tick e lct lot = Inl x"
              using st ld fo p1 zero1 by (simp add: on_tick_def Let_def)
            then show ?thesis using idle2 unp2 Inl by simp
          next
            case (Inr s2)
            note p2 = this
            have s2: "proposals_idle lot s2" "num_cancels_unprofitable s2 = 0"
              using idle2 unp2 p2 by (simp_all add: final_def)
            show ?thesis
            proof (cases "num_cancels_outbid s2 > 0")
              case True
              then have "on_tick e lct lot = Inr s2"
                using st ld fo p1 zero1 p2 by (simp add: on_tick_def Let_def)
              then show ?thesis using s2 by (simp add: final_def)
            next
              case False
              then have "on_tick e lct lot = part_three e d os (trading_pairs e) s2"
                using st ld fo p1 zero1 p2 by (simp add: on_tick_def Let_def)
              then show ?thesis using s2 False by blast
            qed
          qed
        qed
      qed
    qed
  qed
qed

subsection \<open>A payload that is not text\<close>

text \<open>
  Claim C9. If parsing the cached reference payload raises \<^verbatim>\<open>TypeError\<close> at the start of
  a cycle, the cycle returns at once: no call is made on the connector (no cancellation,
  no order), the counters of cancellations and proposals stay at zero, and neither
  \<open>last_cancel_time\<close> nor \<open>last_order_time\<close> changes for any pair.
\<close>

theorem typeerror_cycle_does_nothing:
  assumes "started e" and "json_loads e = Raises_TypeError"
  shows "\<exists>s. on_tick e lct lot = Inr s \<and> actions s = [] \<and>
           num_cancels_unprofitable s = 0 \<and> num_cancels_outbid s = 0 \<and> num_orders s = 0 \<and>
           last_cancel_time s = lct \<and> last_order_time s = lot"
  using assms by (simp add: on_tick_def init_cycle_def)

theorem typeerror_cycle_does_nothing_witness:
  "started feed_not_ready \<and> json_loads feed_not_ready = Raises_TypeError \<and>
   (\<exists>s. on_tick feed_not_ready [''DUSK-BTC'' \<mapsto> 0] [''DUSK-BTC'' \<mapsto> 50] = Inr s \<and>
        actions s = [] \<and>
        num_cancels_unprofitable s = 0 \<and> num_cancels_outbid s = 0 \<and> num_orders s = 0 \<and>
        last_cancel_time s = [''DUSK-BTC'' \<mapsto> 0] \<and>
        last_order_time s = [''DUSK-BTC'' \<mapsto> 50])"
proof -
  have a: "started feed_not_ready" by (simp add: feed_not_ready_def)
  have b: "json_loads feed_not_ready = Raises_TypeError" by (simp add: feed_not_ready_def)
  from typeerror_cycle_does_nothing [OF a b] a b show ?thesis by blast
qed

subsection \<open>Priority of the phases\<close>

text \<open>
  Claim C3. In every cycle, whether it returns or raises: if Part One cancelled at least one
  order, then Part Two cancelled none and Part Three did nothing; and if Part One cancelled
  none but Part Two cancelled at least one, then Part Three did nothing.
\<close>

theorem cancellations_block_later_phases:
  "(num_cancels_unprofitable (final (on_tick e lct lot)) > 0 \<longrightarrow>
      num_cancels_outbid (final (on_tick e lct lot)) = 0 \<and>
      proposals_idle lot (final (on_tick e lct lot))) \<and>
   (num_cancels_unprofitable (final (on_tick e lct lot)) = 0 \<and>
    num_cancels_outbid (final (on_tick e lct lot)) > 0 \<longrightarrow>
      proposals_idle lot (final (on_tick e lct lot)))"
  using on_tick_cases [of lot e lct]
proof
  assume "proposals_idle lot (final (on_tick e lct lot)) \<and>
    (0 < num_cancels_unprofitable (final (on_tick e lct lot)) \<longrightarrow>
       num_cancels_outbid (final (on_tick e lct lot)) = 0)"
  then show ?thesis by blast
next
  assume "\<exists>d os s2. proposals_idle lot s2 \<and>
      num_cancels_unprofitable s2 = 0 \<and> num_cancels_outbid s2 = 0 \<and>
      on_tick e lct lot = part_three e d os (trading_pairs e) s2"
  then obtain d os s2 where "num_cancels_unprofitable s2 = 0" "num_cancels_outbid s2 = 0"
    "on_tick e lct lot = part_three e d os (trading_pairs e) s2"
    by blast
  then have "num_cancels_unprofitable (final (on_tick e lct lot)) = 0"
    "num_cancels_outbid (final (on_tick e lct lot)) = 0"
    using part_three_cancel_counters [of e d os "trading_pairs e" s2] by simp_all
  then show ?thesis by simp
qed

theorem cancellations_block_later_phases_witness:
  "0 < num_cancels_unprofitable (final (on_tick (two_pairs\<lparr>active_orders := [unprofitable_buy, outbid_sell, kept_buy]\<rparr>) never_cancelled ordered_at_50)) \<and>
   num_cancels_outbid (final (on_tick (two_pairs\<lparr>active_orders := [unprofitable_buy, outbid_sell, kept_buy]\<rparr>) never_cancelled ordered_at_50)) = 0 \<and>
   proposals_idle ordered_at_50 (final (on_tick (two_pairs\<lparr>active_orders := [unprofitable_buy, outbid_sell, kept_buy]\<rparr>) never_cancelled ordered_at_50)) \<and>
   num_cancels_unprofitable (final (on_tick (two_pairs\<lparr>active_orders := [outbid_sell, kept_buy]\<rparr>) never_cancelled ordered_at_50)) = 0 \<and>
   0 < num_cancels_outbid (final (on_tick (two_pairs\<lparr>active_orders := [outbid_sell, kept_buy]\<rparr>) never_cancelled ordered_at_50)) \<and>
   proposals_idle ordered_at_50 (final (on_tick (two_pairs\<lparr>active_orders := [outbid_sell, kept_buy]\<rparr>) never_cancelled ordered_at_50))"
proof -
  let ?e1 = "two_pairs\<lparr>active_orders := [unprofitable_buy, outbid_sell, kept_buy]\<rparr>"
  let ?e2 = "two_pairs\<lparr>active_orders := [outbid_sell, kept_buy]\<rparr>"
  have a: "0 < num_cancels_unprofitable (final (on_tick ?e1 never_cancelled ordered_at_50))"
    by code_simp
  have b: "num_cancels_unprofitable (final (on_tick ?e2 never_cancelled ordered_at_50)) = 0"
    by code_simp
  have c: "0 < num_cancels_outbid (final (on_tick ?e2 never_cancelled ordered_at_50))"
    by code_simp
  show ?thesis
    using cancellations_block_later_phases [of ?e1 never_cancelled ordered_at_50]
      cancellations_block_later_phases [of ?e2 never_cancelled ordered_at_50] a b c
    by blast
qed

subsection \<open>Part One cancels exactly the unprofitable orders\<close>



subsection \<open>Part Two cancels exactly the outbid orders\<close>



subsection \<open>A stale reference price reaches Part Three\<close>

text \<open>Part One and Part Two leave a pair alone whose reference bid or ask is not positive,
  whether they run through all pairs or raise on the way.\<close>

lemma spec_unprofitable_cancels_skip_stale:
  assumes "d tp = Some r" and "bid r \<le> 0 \<or> ask r \<le> 0"
  shows "tp \<notin> fst ` set (spec_unprofitable_cancels d os tps)"
  using assms by (auto simp: spec_unprofitable_cancels_def split: option.splits if_splits)

lemma spec_outbid_cancels_skip_stale:
  assumes "d tp = Some r" and "bid r \<le> 0 \<or> ask r \<le> 0"
  shows "tp \<notin> fst ` set (spec_outbid_cancels e d os tps)"
  using assms by (auto simp: spec_outbid_cancels_def split: option.splits if_splits)

lemma stale_pair_not_cancelled:
  assumes "d tp = Some r" and "bid r \<le> 0 \<or> ask r \<le> 0"
  shows "\<exists>cs. actions (final (part_one e d os tps s)) =
                actions s @ map (\<lambda>(tp, cid). Cancel tp cid) cs \<and> tp \<notin> fst ` set cs"
    and "\<exists>cs. actions (final (part_two e d os tps s)) =
                actions s @ map (\<lambda>(tp, cid). Cancel tp cid) cs \<and> tp \<notin> fst ` set cs"
proof -
  let ?pre = "takeWhile (\<lambda>tp. d tp \<noteq> None) tps"
  have "actions (final (part_one e d os tps s)) =
      actions s @ map (\<lambda>(tp, cid). Cancel tp cid)
        (spec_unprofitable_cancels d os (if \<forall>tp \<in> set tps. d tp \<noteq> None then tps else ?pre))"
    by (auto simp: part_one_foldl final_def foldl_record_cancel_actions)
  then show "\<exists>cs. actions (final (part_one e d os tps s)) =
                actions s @ map (\<lambda>(tp, cid). Cancel tp cid) cs \<and> tp \<notin> fst ` set cs"
    using spec_unprofitable_cancels_skip_stale [of d tp r] assms by blast
  have "actions (final (part_two e d os tps s)) =
      actions s @ map (\<lambda>(tp, cid). Cancel tp cid)
        (spec_outbid_cancels e d os (if \<forall>tp \<in> set tps. d tp \<noteq> None then tps else ?pre))"
    by (auto simp: part_two_foldl final_def foldl_record_cancel_actions)
  then show "\<exists>cs. actions (final (part_two e d os tps s)) =
                actions s @ map (\<lambda>(tp, cid). Cancel tp cid) cs \<and> tp \<notin> fst ` set cs"
    using spec_outbid_cancels_skip_stale [of d tp r] assms by blast
qed

text \<open>
  Claim C1. A pair whose reference bid or ask is not positive should see no cancellation
  and no proposal in the cycle. Part One and Part Two skip such a pair, but Part Three only
  checks that the computed prices are numbers: with reference bid and ask both \<open>0\<close> for
  \<open>DUSK-BTC\<close>, the cycle accepts and places a sell order for that pair at half the best ask
  and stamps its \<open>last_order_time\<close>.
\<close>

theorem stale_pair_gets_sell_order:
  "json_loads stale_dusk = Loaded [''DUSK-BTC'' \<mapsto> \<lparr>bid = 0, ask = 0\<rparr>,
                                   ''QLC-BTC'' \<mapsto> \<lparr>bid = 0.0020, ask = 0.0022\<rparr>] \<and>
   raised (on_tick stale_dusk never_cancelled ordered_at_50) = None \<and>
   actions (final (on_tick stale_dusk never_cancelled ordered_at_50)) =
     [Sell ''DUSK-BTC'' 10 LIMIT 0.0006] \<and>
   num_orders (final (on_tick stale_dusk never_cancelled ordered_at_50)) = 1 \<and>
   last_order_time (final (on_tick stale_dusk never_cancelled ordered_at_50)) ''DUSK-BTC'' =
     Some 101"
proof -
  have "json_loads stale_dusk = Loaded [''DUSK-BTC'' \<mapsto> \<lparr>bid = 0, ask = 0\<rparr>,
                                   ''QLC-BTC'' \<mapsto> \<lparr>bid = 0.0020, ask = 0.0022\<rparr>]"
    by (simp add: stale_dusk_def)
  moreover have "raised (on_tick stale_dusk never_cancelled ordered_at_50) = None"
    by code_simp
  moreover have "actions (final (on_tick stale_dusk never_cancelled ordered_at_50)) =
     [Sell ''DUSK-BTC'' 10 LIMIT 0.0006]"
    by code_simp
  moreover have "num_orders (final (on_tick stale_dusk never_cancelled ordered_at_50)) = 1"
    by code_simp
  moreover have "last_order_time (final (on_tick stale_dusk never_cancelled ordered_at_50))
      ''DUSK-BTC'' = Some 101"
    by code_simp
  ultimately show ?thesis by blast
qed

subsection \<open>Prices of the proposals\<close>







subsection \<open>The distance check of the buy side\<close>



subsection \<open>A missing pair aborts the cycle\<close>

text \<open>
  Claim C8. The cycle has no handler around the evaluation of a pair, so a fault is not
  isolated: when a pair is absent from the reference dictionary, the lookup raises
  \<^verbatim>\<open>KeyError\<close> out of \<^verbatim>\<open>on_tick\<close>. With \<open>DUSK-BTC\<close> absent the cycle raises before it looks at
  \<open>QLC-BTC\<close>, whose unprofitable buy order stays open, although a cycle over \<open>QLC-BTC\<close> alone
  cancels it.
\<close>

theorem fault_not_isolated_counterexample:
  "raised (on_tick missing_dusk never_cancelled ordered_at_50) = Some KeyError \<and>
   actions (final (on_tick missing_dusk never_cancelled ordered_at_50)) = [] \<and>
   raised (on_tick (missing_dusk\<lparr>trading_pairs := [''QLC-BTC'']\<rparr>)
             never_cancelled ordered_at_50) = None \<and>
   actions (final (on_tick (missing_dusk\<lparr>trading_pairs := [''QLC-BTC'']\<rparr>)
                     never_cancelled ordered_at_50)) = [Cancel ''QLC-BTC'' ''b3'']"
proof -
  have "raised (on_tick missing_dusk never_cancelled ordered_at_50) = Some KeyError"
    by code_simp
  moreover have "actions (final (on_tick missing_dusk never_cancelled ordered_at_50)) = []"
    by code_simp
  moreover have "raised (on_tick (missing_dusk\<lparr>trading_pairs := [''QLC-BTC'']\<rparr>)
             never_cancelled ordered_at_50) = None"
    by code_simp
  moreover have "actions (final (on_tick (missing_dusk\<lparr>trading_pairs := [''QLC-BTC'']\<rparr>)
                     never_cancelled ordered_at_50)) = [Cancel ''QLC-BTC'' ''b3'']"
    by code_simp
  ultimately show ?thesis by blast
qed

text \<open>
  Claim C8, as the code has it. When the payload parsed and the open orders were stored,
  and \<open>tp\<close> is the first configured pair absent from the reference dictionary, the cycle
  raises \<^verbatim>\<open>KeyError\<close> in Part One at \<open>tp\<close>: the cancellations of the pairs before \<open>tp\<close> have been
  issued, the pairs after \<open>tp\<close> are not evaluated, and Part Two and Part Three do not run.
\<close>

theorem missing_pair_aborts_cycle:
  assumes "started e" and "json_loads e = Loaded d" and "fetch_orders e = Inr os"
    and "trading_pairs e = pre @ tp # post"
    and "\<forall>p \<in> set pre. d p \<noteq> None" and "d tp = None"
  shows "on_tick e lct lot =
           Inl (KeyError, foldl (record_cancel True e) (init_cycle lct lot)
                            (spec_unprofitable_cancels d os pre))"
proof -
  have tw: "takeWhile (\<lambda>p. d p \<noteq> None) (pre @ tp # post) = pre"
    using assms(5,6) by (simp add: takeWhile_append2)
  have "part_one e d os (pre @ tp # post) (init_cycle lct lot) =
          Inl (KeyError, foldl (record_cancel True e) (init_cycle lct lot)
                           (spec_unprofitable_cancels d os pre))"
    unfolding part_one_foldl tw using assms(6) by auto
  then show ?thesis
    using assms(1-4) by (simp add: on_tick_def)
qed

theorem missing_pair_aborts_cycle_witness:
  "started (missing_dusk\<lparr>trading_pairs := [''QLC-BTC'', ''DUSK-BTC'']\<rparr>) \<and>
   [''QLC-BTC'' \<mapsto> \<lparr>bid = 0.0020, ask = 0.0022\<rparr>] ''QLC-BTC'' \<noteq> None \<and>
   [''QLC-BTC'' \<mapsto> \<lparr>bid = 0.0020, ask = 0.0022\<rparr>] ''DUSK-BTC'' = None \<and>
   raised (on_tick (missing_dusk\<lparr>trading_pairs := [''QLC-BTC'', ''DUSK-BTC'']\<rparr>)
             never_cancelled ordered_at_50) = Some KeyError \<and>
   actions (final (on_tick (missing_dusk\<lparr>trading_pairs := [''QLC-BTC'', ''DUSK-BTC'']\<rparr>)
                     never_cancelled ordered_at_50)) = [Cancel ''QLC-BTC'' ''b3'']"
proof -
  let ?e = "missing_dusk\<lparr>trading_pairs := [''QLC-BTC'', ''DUSK-BTC'']\<rparr>"
  let ?d = "[''QLC-BTC'' \<mapsto> \<lparr>bid = 0.0020, ask = 0.0022\<rparr>]"
  let ?b3 = "\<lparr>client_order_id = ''b3'', trading_pair = ''QLC-BTC'', is_buy = True,
              price = 0.0021 :: rat\<rparr>"
  let ?os = "(\<lambda>tp side. [])(''QLC-BTC'' := (\<lambda>side. [])(True := [(''b3'', ?b3)]))"
  have a: "started ?e" by (simp add: missing_dusk_def two_pairs_def)
  have b: "json_loads ?e = Loaded ?d" by (simp add: missing_dusk_def two_pairs_def)
  have c: "fetch_orders ?e = Inr ?os"
    by (simp add: fetch_orders_def missing_dusk_def two_pairs_def)
  have d: "trading_pairs ?e = [''QLC-BTC''] @ ''DUSK-BTC'' # []" by simp
  have f: "\<forall>p \<in> set [''QLC-BTC'']. ?d p \<noteq> None" by simp
  have g: "?d ''DUSK-BTC'' = None" by simp
  have cs: "spec_unprofitable_cancels ?d ?os [''QLC-BTC''] = [(''QLC-BTC'', ''b3'')]"
    by (simp add: spec_unprofitable_cancels_def buy_cancel_unprofitable_ratio_def)
  have "on_tick ?e never_cancelled ordered_at_50 =
      Inl (KeyError, foldl (record_cancel True ?e) (init_cycle never_cancelled ordered_at_50)
                       [(''QLC-BTC'', ''b3'')])"
    using missing_pair_aborts_cycle [OF a b c d f g, of never_cancelled ordered_at_50]
    unfolding cs .
  then have "raised (on_tick ?e never_cancelled ordered_at_50) = Some KeyError"
    "actions (final (on_tick ?e never_cancelled ordered_at_50)) = [Cancel ''QLC-BTC'' ''b3'']"
    by (simp_all add: raised_def final_def record_cancel_def init_cycle_def)
  with a f g show ?thesis by simp
qed

subsection \<open>One pair per cycle in Part Three\<close>

lemma propose_pair_capped:
  "num_orders s > 0 \<Longrightarrow>
   propose_pair e d os tp s = Inr (s\<lparr>skip_proposal_for_count := skip_proposal_for_count s + 1\<rparr>)"
  by (simp add: propose_pair_def)

lemma part_three_capped:
  "num_orders s > 0 \<Longrightarrow>
   part_three e d os tps s =
     Inr (s\<lparr>skip_proposal_for_count := skip_proposal_for_count s + length tps\<rparr>)"
  by (induction tps arbitrary: s) (simp_all add: propose_pair_capped)

lemma buy_side_num_orders:
  "buy_side e os tp q bpm p s = Inr (p', s') \<Longrightarrow>
     num_orders s' \<le> num_orders s + 1 \<and> skip_proposal_for_count s' = skip_proposal_for_count s"
  "buy_side e os tp q bpm p s = Inl (err, s') \<Longrightarrow>
     num_orders s' \<le> num_orders s + 1 \<and> skip_proposal_for_count s' = skip_proposal_for_count s"
  by (auto simp: buy_side_def accept_def Let_def split: if_splits option.splits)

lemma sell_side_num_orders:
  "sell_side e os tp b q spm p s = Inr (p', s') \<Longrightarrow>
     num_orders s' \<le> num_orders s + 1 \<and> skip_proposal_for_count s' = skip_proposal_for_count s"
  "sell_side e os tp b q spm p s = Inl (err, s') \<Longrightarrow>
     num_orders s' \<le> num_orders s + 1 \<and> skip_proposal_for_count s' = skip_proposal_for_count s"
  by (auto simp: sell_side_def accept_def Let_def split: if_splits option.splits)

lemma propose_pair_num_orders:
  assumes "num_orders s = 0"
  shows "num_orders (final (propose_pair e d os tp s)) \<le> 2 \<and>
         skip_proposal_for_count (final (propose_pair e d os tp s)) = skip_proposal_for_count s"
  using assms
  by (auto simp: propose_pair_def final_def place_orders_def Let_def
           dest!: buy_side_num_orders sell_side_num_orders
           split: option.splits list.splits sum.splits prod.splits)

lemma part_three_num_orders:
  "num_orders s = 0 \<Longrightarrow> num_orders (final (part_three e d os tps s)) \<le> 2"
proof (induction tps arbitrary: s)
  case Nil
  then show ?case by (simp add: final_def)
next
  case (Cons tp tps)
  show ?case
  proof (cases "propose_pair e d os tp s")
    case (Inl x)
    then show ?thesis
      using propose_pair_num_orders [OF Cons.prems, of e d os tp] by simp
  next
    case (Inr s1)
    then have s1: "num_orders s1 \<le> 2"
      using propose_pair_num_orders [OF Cons.prems, of e d os tp] by (simp add: final_def)
    show ?thesis
    proof (cases "num_orders s1 = 0")
      case True
      then show ?thesis using Cons.IH [of s1] Inr by simp
    next
      case False
      then show ?thesis using Inr s1 by (simp add: part_three_capped final_def)
    qed
  qed
qed

lemma part_three_one_pair:
  assumes "part_three e d os tps s = Inr s'" and "num_orders s = 0"
  shows "(num_orders s' = 0 \<and> skip_proposal_for_count s' = skip_proposal_for_count s) \<or>
         (\<exists>pre tp post s0 s1.
            tps = pre @ tp # post \<and>
            part_three e d os pre s = Inr s0 \<and> num_orders s0 = 0 \<and>
            propose_pair e d os tp s0 = Inr s1 \<and> 0 < num_orders s1 \<and> num_orders s1 \<le> 2 \<and>
            s' = s1\<lparr>skip_proposal_for_count := skip_proposal_for_count s + length post\<rparr>)"
  using assms
proof (induction tps arbitrary: s)
  case Nil
  then show ?case by simp
next
  case (Cons tp tps)
  from Cons.prems(1) obtain s1 where pp: "propose_pair e d os tp s = Inr s1"
    and rest: "part_three e d os tps s1 = Inr s'"
    by (auto split: sum.splits)
  have s1: "num_orders s1 \<le> 2" "skip_proposal_for_count s1 = skip_proposal_for_count s"
    using propose_pair_num_orders [OF Cons.prems(2), of e d os tp] pp by (simp_all add: final_def)
  show ?case
  proof (cases "num_orders s1 = 0")
    case True
    from Cons.IH [OF rest True] show ?thesis
    proof
      assume "num_orders s' = 0 \<and> skip_proposal_for_count s' = skip_proposal_for_count s1"
      then show ?thesis using s1 by simp
    next
      assume "\<exists>pre tp post s0 s1'.
            tps = pre @ tp # post \<and>
            part_three e d os pre s1 = Inr s0 \<and> num_orders s0 = 0 \<and>
            propose_pair e d os tp s0 = Inr s1' \<and> 0 < num_orders s1' \<and> num_orders s1' \<le> 2 \<and>
            s' = s1'\<lparr>skip_proposal_for_count := skip_proposal_for_count s1 + length post\<rparr>"
      then obtain pre tp' post s0 s1' where
        "tps = pre @ tp' # post" "part_three e d os pre s1 = Inr s0" "num_orders s0 = 0"
        "propose_pair e d os tp' s0 = Inr s1'" "0 < num_orders s1'" "num_orders s1' \<le> 2"
        "s' = s1'\<lparr>skip_proposal_for_count := skip_proposal_for_count s1 + length post\<rparr>"
        by blast
      then have "tp # tps = (tp # pre) @ tp' # post \<and>
            part_three e d os (tp # pre) s = Inr s0 \<and> num_orders s0 = 0 \<and>
            propose_pair e d os tp' s0 = Inr s1' \<and> 0 < num_orders s1' \<and> num_orders s1' \<le> 2 \<and>
            s' = s1'\<lparr>skip_proposal_for_count := skip_proposal_for_count s + length post\<rparr>"
        using pp s1 by simp
      then show ?thesis by blast
    qed
  next
    case False
    then have "s' = s1\<lparr>skip_proposal_for_count := skip_proposal_for_count s + length tps\<rparr>"
      using rest s1 by (simp add: part_three_capped)
    then have "tp # tps = [] @ tp # tps \<and>
            part_three e d os [] s = Inr s \<and> num_orders s = 0 \<and>
            propose_pair e d os tp s = Inr s1 \<and> 0 < num_orders s1 \<and> num_orders s1 \<le> 2 \<and>
            s' = s1\<lparr>skip_proposal_for_count := skip_proposal_for_count s + length tps\<rparr>"
      using pp s1 False Cons.prems(2) by simp
    then show ?thesis by blast
  qed
qed

text \<open>
  Claim C2. The claim that at most one order proposal is accepted per cycle fails: the
  buy side and the sell side of one pair are both evaluated before the cap is looked at
  again. With no open order and ample balances, the cycle accepts and places a buy and a
  sell order for \<open>DUSK-BTC\<close>.
\<close>

theorem one_proposal_per_cycle_counterexample:
  "num_orders (final (on_tick two_pairs never_cancelled ordered_at_50)) = 2 \<and>
   actions (final (on_tick two_pairs never_cancelled ordered_at_50)) =
     [Buy ''DUSK-BTC'' (0.000138 * 1.10 / 0.0009875) LIMIT 0.0009875,
      Sell ''DUSK-BTC'' 10 LIMIT 0.001150275] \<and>
   skip_proposal_for_count (final (on_tick two_pairs never_cancelled ordered_at_50)) = 1"
proof -
  have "num_orders (final (on_tick two_pairs never_cancelled ordered_at_50)) = 2"
    by code_simp
  moreover have "actions (final (on_tick two_pairs never_cancelled ordered_at_50)) =
     [Buy ''DUSK-BTC'' (0.000138 * 1.10 / 0.0009875) LIMIT 0.0009875,
      Sell ''DUSK-BTC'' 10 LIMIT 0.001150275]"
    by code_simp
  moreover have
    "skip_proposal_for_count (final (on_tick two_pairs never_cancelled ordered_at_50)) = 1"
    by code_simp
  ultimately show ?thesis by blast
qed

text \<open>
  Claim C2, as the code has it. The cap is one pair per cycle, not one candidate: in every
  cycle at most two candidates are accepted. When Part Three runs through the pairs, either
  nothing is accepted and no count-cap skip is recorded, or there is one pair \<open>tp\<close> such that
  the pairs before it accepted nothing, \<open>tp\<close> had one or two candidates accepted (its buy,
  its sell, or both), and every pair after \<open>tp\<close> is skipped with a count-cap skip and changes
  nothing else.
\<close>

theorem one_pair_per_cycle:
  "num_orders (final (on_tick e lct lot)) \<le> 2 \<and>
   (part_three e d os tps s = Inr s' \<and> num_orders s = 0 \<longrightarrow>
      (num_orders s' = 0 \<and> skip_proposal_for_count s' = skip_proposal_for_count s) \<or>
      (\<exists>pre tp post s0 s1.
         tps = pre @ tp # post \<and>
         part_three e d os pre s = Inr s0 \<and> num_orders s0 = 0 \<and>
         propose_pair e d os tp s0 = Inr s1 \<and> 0 < num_orders s1 \<and> num_orders s1 \<le> 2 \<and>
         s' = s1\<lparr>skip_proposal_for_count := skip_proposal_for_count s + length post\<rparr>))"
proof
  show "num_orders (final (on_tick e lct lot)) \<le> 2"
    using on_tick_cases [of lot e lct]
  proof
    assume "proposals_idle lot (final (on_tick e lct lot)) \<and>
      (0 < num_cancels_unprofitable (final (on_tick e lct lot)) \<longrightarrow>
         num_cancels_outbid (final (on_tick e lct lot)) = 0)"
    then show ?thesis by (simp add: proposals_idle_def)
  next
    assume "\<exists>d os s2. proposals_idle lot s2 \<and>
      num_cancels_unprofitable s2 = 0 \<and> num_cancels_outbid s2 = 0 \<and>
      on_tick e lct lot = part_three e d os (trading_pairs e) s2"
    then obtain d os s2 where "proposals_idle lot s2"
      "on_tick e lct lot = part_three e d os (trading_pairs e) s2" by blast
    then show ?thesis
      using part_three_num_orders [of s2 e d os "trading_pairs e"]
      by (simp add: proposals_idle_def)
  qed
next
  show "part_three e d os tps s = Inr s' \<and> num_orders s = 0 \<longrightarrow>
      (num_orders s' = 0 \<and> skip_proposal_for_count s' = skip_proposal_for_count s) \<or>
      (\<exists>pre tp post s0 s1.
         tps = pre @ tp # post \<and>
         part_three e d os pre s = Inr s0 \<and> num_orders s0 = 0 \<and>
         propose_pair e d os tp s0 = Inr s1 \<and> 0 < num_orders s1 \<and> num_orders s1 \<le> 2 \<and>
         s' = s1\<lparr>skip_proposal_for_count := skip_proposal_for_count s + length post\<rparr>)"
    using part_three_one_pair [of e d os tps s s'] by blast
qed

theorem one_pair_per_cycle_witness:
  "\<exists>s'. part_three two_pairs two_pairs_reference no_orders [''DUSK-BTC'', ''QLC-BTC'']
           (init_cycle never_cancelled ordered_at_50) = Inr s' \<and>
        num_orders (init_cycle never_cancelled ordered_at_50) = 0 \<and>
        num_orders s' = 2 \<and> skip_proposal_for_count s' = 1 \<and>
        (\<exists>pre tp post s0 s1.
           [''DUSK-BTC'', ''QLC-BTC''] = pre @ tp # post \<and>
           part_three two_pairs two_pairs_reference no_orders pre
             (init_cycle never_cancelled ordered_at_50) = Inr s0 \<and> num_orders s0 = 0 \<and>
           propose_pair two_pairs two_pairs_reference no_orders tp s0 = Inr s1 \<and>
           0 < num_orders s1 \<and> num_orders s1 \<le> 2 \<and>
           s' = s1\<lparr>skip_proposal_for_count :=
                      skip_proposal_for_count (init_cycle never_cancelled ordered_at_50) +
                      length post\<rparr>)"
proof -
  let ?r = "part_three two_pairs two_pairs_reference no_orders [''DUSK-BTC'', ''QLC-BTC'']
           (init_cycle never_cancelled ordered_at_50)"
  have ok: "raised ?r = None" by code_simp
  have n: "num_orders (final ?r) = 2" by code_simp
  have k: "skip_proposal_for_count (final ?r) = 1" by code_simp
  from ok obtain s' where r: "?r = Inr s'"
    by (cases ?r) (auto simp: raised_def)
  have z: "num_orders (init_cycle never_cancelled ordered_at_50) = 0"
    by (simp add: init_cycle_def)
  have n': "num_orders s' = 2" and k': "skip_proposal_for_count s' = 1"
    using n k r by (simp_all add: final_def)
  from one_pair_per_cycle [of two_pairs never_cancelled ordered_at_50 two_pairs_reference
      no_orders "[''DUSK-BTC'', ''QLC-BTC'']" "init_cycle never_cancelled ordered_at_50" s']
    r z n'
  have "\<exists>pre tp post s0 s1.
           [''DUSK-BTC'', ''QLC-BTC''] = pre @ tp # post \<and>
           part_three two_pairs two_pairs_reference no_orders pre
             (init_cycle never_cancelled ordered_at_50) = Inr s0 \<and> num_orders s0 = 0 \<and>
           propose_pair two_pairs two_pairs_reference no_orders tp s0 = Inr s1 \<and>
           0 < num_orders s1 \<and> num_orders s1 \<le> 2 \<and>
           s' = s1\<lparr>skip_proposal_for_count :=
                      skip_proposal_for_count (init_cycle never_cancelled ordered_at_50) +
                      length post\<rparr>"
    by simp
  with r z n' k' show ?thesis by blast
qed

subsection \<open>The rate-limit dictionaries\<close>

lemma init_last_cancel_time_notin:
  "tp \<notin> set tps \<Longrightarrow> init_last_cancel_time tps m tp = m tp"
  by (induction tps arbitrary: m) auto

lemma init_last_cancel_time_in:
  "tp \<in> set tps \<Longrightarrow> init_last_cancel_time tps m tp = Some 0"
proof (induction tps arbitrary: m)
  case Nil
  then show ?case by simp
next
  case (Cons x xs)
  show ?case
  proof (cases "tp \<in> set xs")
    case True
    then show ?thesis using Cons.IH by simp
  next
    case False
    then show ?thesis using Cons.prems by (simp add: init_last_cancel_time_notin)
  qed
qed

lemma init_last_order_time_notin:
  "tp \<notin> set tps \<Longrightarrow> init_last_order_time clk k tps m tp = m tp"
  by (induction tps arbitrary: k m) auto

lemma init_last_order_time_in:
  "tp \<in> set tps \<Longrightarrow> \<exists>j < length tps. init_last_order_time clk k tps m tp = Some (clk (k + j))"
proof (induction tps arbitrary: k m)
  case Nil
  then show ?case by simp
next
  case (Cons x xs)
  show ?case
  proof (cases "tp \<in> set xs")
    case True
    then obtain j where "j < length xs"
      "init_last_order_time clk (Suc k) xs (m(x \<mapsto> clk k)) tp = Some (clk (Suc k + j))"
      using Cons.IH by blast
    then have "Suc j < length (x # xs) \<and>
        init_last_order_time clk k (x # xs) m tp = Some (clk (k + Suc j))"
      by simp
    then show ?thesis by blast
  next
    case False
    then have "0 < length (x # xs) \<and>
        init_last_order_time clk k (x # xs) m tp = Some (clk (k + 0))"
      using Cons.prems by (simp add: init_last_order_time_notin)
    then show ?thesis by blast
  qed
qed

lemma part_three_all_debounced:
  assumes "num_orders s = 0"
    and "\<forall>tp \<in> set tps. \<exists>t. last_order_time s tp = Some t \<and>
           (\<forall>k. clock e k < t + time_between_orders_for_trading_pair)"
  shows "part_three e d os tps s =
           Inr (s\<lparr>ticks := ticks s + length tps,
                  skip_proposal_for_time := skip_proposal_for_time s + length tps\<rparr>)"
  using assms
proof (induction tps arbitrary: s)
  case Nil
  then show ?case by simp
next
  case (Cons tp tps)
  from Cons.prems(2) obtain t where t: "last_order_time s tp = Some t"
    "\<forall>k. clock e k < t + time_between_orders_for_trading_pair"
    by auto
  let ?s1 = "s\<lparr>ticks := Suc (ticks s), skip_proposal_for_time := skip_proposal_for_time s + 1\<rparr>"
  have pp: "propose_pair e d os tp s = Inr ?s1"
    using Cons.prems(1) t by (simp add: propose_pair_def Let_def)
  have "part_three e d os tps ?s1 =
      Inr (?s1\<lparr>ticks := ticks ?s1 + length tps,
                skip_proposal_for_time := skip_proposal_for_time ?s1 + length tps\<rparr>)"
    using Cons.prems by (intro Cons.IH) simp_all
  then show ?case using pp by simp
qed

subsection \<open>Nothing reads \<open>last_cancel_time\<close>\<close>

lemma same_but_cancel_time_iff:
  "same_but_cancel_time s t \<longleftrightarrow>
     last_order_time s = last_order_time t \<and>
     num_cancels_unprofitable s = num_cancels_unprofitable t \<and>
     num_cancels_outbid s = num_cancels_outbid t \<and>
     num_orders s = num_orders t \<and>
     skip_proposal_for_count s = skip_proposal_for_count t \<and>
     skip_proposal_for_time s = skip_proposal_for_time t \<and>
     skip_proposal_for_distance s = skip_proposal_for_distance t \<and>
     skip_proposal_for_cancels s = skip_proposal_for_cancels t \<and>
     skip_proposal_for_balance s = skip_proposal_for_balance t \<and>
     actions s = actions t \<and> ticks s = ticks t"
  by (cases s; cases t) (auto simp: same_but_cancel_time_def)

lemma same_record_cancel:
  "same_but_cancel_time s t \<Longrightarrow>
   same_but_cancel_time (record_cancel b e s c) (record_cancel b e t c)"
  by (simp add: same_but_cancel_time_iff record_cancel_def)

lemma same_foldl_record_cancel:
  "same_but_cancel_time s t \<Longrightarrow>
   same_but_cancel_time (foldl (record_cancel b e) s cs) (foldl (record_cancel b e) t cs)"
  by (induction cs arbitrary: s t) (simp_all add: same_record_cancel)

lemma same_part_one:
  "same_but_cancel_time s t \<Longrightarrow>
   rel_sum (rel_prod (=) same_but_cancel_time) same_but_cancel_time
     (part_one e d os tps s) (part_one e d os tps t)"
  by (simp add: part_one_foldl same_foldl_record_cancel)

lemma same_part_two:
  "same_but_cancel_time s t \<Longrightarrow>
   rel_sum (rel_prod (=) same_but_cancel_time) same_but_cancel_time
     (part_two e d os tps s) (part_two e d os tps t)"
  by (simp add: part_two_foldl same_foldl_record_cancel)

lemma same_buy_side:
  "same_but_cancel_time s t \<Longrightarrow>
   rel_sum (rel_prod (=) same_but_cancel_time) (rel_prod (=) same_but_cancel_time)
     (buy_side e os tp q bpm p s) (buy_side e os tp q bpm p t)"
  by (simp add: buy_side_def accept_def Let_def same_but_cancel_time_iff split: option.splits)

lemma same_sell_side:
  "same_but_cancel_time s t \<Longrightarrow>
   rel_sum (rel_prod (=) same_but_cancel_time) (rel_prod (=) same_but_cancel_time)
     (sell_side e os tp b q spm p s) (sell_side e os tp b q spm p t)"
  by (simp add: sell_side_def accept_def Let_def same_but_cancel_time_iff split: option.splits)

lemma rel_sum_bind:
  assumes "rel_sum R S x y" and "\<And>a b. S a b \<Longrightarrow> rel_sum R T (f a) (g b)"
  shows "rel_sum R T (case x of Inl err \<Rightarrow> Inl err | Inr a \<Rightarrow> f a)
                     (case y of Inl err \<Rightarrow> Inl err | Inr b \<Rightarrow> g b)"
  using assms by (auto elim!: rel_sum.cases)

lemma same_propose_pair:
  assumes "same_but_cancel_time s t"
  shows "rel_sum (rel_prod (=) same_but_cancel_time) same_but_cancel_time
           (propose_pair e d os tp s) (propose_pair e d os tp t)"
proof -
  let ?s1 = "s\<lparr>ticks := Suc (ticks s)\<rparr>" and ?t1 = "t\<lparr>ticks := Suc (ticks t)\<rparr>"
  have eqs: "num_orders s = num_orders t" "ticks s = ticks t"
    "last_order_time s = last_order_time t"
    using assms by (simp_all add: same_but_cancel_time_iff)
  have s1: "same_but_cancel_time ?s1 ?t1"
    using assms by (simp add: same_but_cancel_time_iff)
  have skip: "same_but_cancel_time
      (s\<lparr>skip_proposal_for_count := skip_proposal_for_count s + 1\<rparr>)
      (t\<lparr>skip_proposal_for_count := skip_proposal_for_count t + 1\<rparr>)"
    "same_but_cancel_time
      (?s1\<lparr>skip_proposal_for_time := skip_proposal_for_time ?s1 + 1\<rparr>)
      (?t1\<lparr>skip_proposal_for_time := skip_proposal_for_time ?t1 + 1\<rparr>)"
    using assms by (simp_all add: same_but_cancel_time_iff)
  have sides: "rel_sum (rel_prod (=) same_but_cancel_time) same_but_cancel_time
      (case buy_side e os tp q bpm [] ?s1 of
         Inl x \<Rightarrow> Inl x
       | Inr (proposal, s2) \<Rightarrow>
           (case sell_side e os tp b q spm proposal s2 of
              Inl x \<Rightarrow> Inl x
            | Inr (proposal', s3) \<Rightarrow> Inr (place_orders (adjust_candidates e proposal') s3)))
      (case buy_side e os tp q bpm [] ?t1 of
         Inl x \<Rightarrow> Inl x
       | Inr (proposal, s2) \<Rightarrow>
           (case sell_side e os tp b q spm proposal s2 of
              Inl x \<Rightarrow> Inl x
            | Inr (proposal', s3) \<Rightarrow> Inr (place_orders (adjust_candidates e proposal') s3)))"
    for b q bpm spm
  proof (rule rel_sum_bind [OF same_buy_side [OF s1]])
    fix a a' :: "order_candidate list \<times> st"
    assume "rel_prod (=) same_but_cancel_time a a'"
    then obtain proposal s2 t2 where a: "a = (proposal, s2)" "a' = (proposal, t2)"
      and s2: "same_but_cancel_time s2 t2"
      by (cases a; cases a') auto
    have "rel_sum (rel_prod (=) same_but_cancel_time) same_but_cancel_time
        (case sell_side e os tp b q spm proposal s2 of
              Inl x \<Rightarrow> Inl x
            | Inr (proposal', s3) \<Rightarrow> Inr (place_orders (adjust_candidates e proposal') s3))
        (case sell_side e os tp b q spm proposal t2 of
              Inl x \<Rightarrow> Inl x
            | Inr (proposal', s3) \<Rightarrow> Inr (place_orders (adjust_candidates e proposal') s3))"
    proof (rule rel_sum_bind [OF same_sell_side [OF s2]])
      fix c c' :: "order_candidate list \<times> st"
      assume "rel_prod (=) same_but_cancel_time c c'"
      then show "rel_sum (rel_prod (=) same_but_cancel_time) same_but_cancel_time
          (case c of (proposal', s3) \<Rightarrow> Inr (place_orders (adjust_candidates e proposal') s3))
          (case c' of (proposal', s3) \<Rightarrow> Inr (place_orders (adjust_candidates e proposal') s3))"
        by (cases c; cases c') (auto simp: place_orders_def same_but_cancel_time_iff)
    qed
    then show "rel_sum (rel_prod (=) same_but_cancel_time) same_but_cancel_time
        (case a of (proposal, s2) \<Rightarrow>
           (case sell_side e os tp b q spm proposal s2 of
              Inl x \<Rightarrow> Inl x
            | Inr (proposal', s3) \<Rightarrow> Inr (place_orders (adjust_candidates e proposal') s3)))
        (case a' of (proposal, s2) \<Rightarrow>
           (case sell_side e os tp b q spm proposal s2 of
              Inl x \<Rightarrow> Inl x
            | Inr (proposal', s3) \<Rightarrow> Inr (place_orders (adjust_candidates e proposal') s3)))"
      using a by simp
  qed
  show ?thesis
    unfolding propose_pair_def Let_def
    using eqs s1 skip sides
    by (auto split: option.splits list.splits)
qed

lemma same_part_three:
  "same_but_cancel_time s t \<Longrightarrow>
   rel_sum (rel_prod (=) same_but_cancel_time) same_but_cancel_time
     (part_three e d os tps s) (part_three e d os tps t)"
proof (induction tps arbitrary: s t)
  case Nil
  then show ?case by simp
next
  case (Cons tp tps)
  show ?case
    unfolding part_three.simps
    by (rule rel_sum_bind [OF same_propose_pair [OF Cons.prems]]) (rule Cons.IH)
qed

lemma same_on_tick:
  "rel_sum (rel_prod (=) same_but_cancel_time) same_but_cancel_time
     (on_tick e lct1 lot) (on_tick e lct2 lot)"
proof -
  let ?R = "rel_sum (rel_prod (=) same_but_cancel_time) same_but_cancel_time"
  have s0: "same_but_cancel_time (init_cycle lct1 lot) (init_cycle lct2 lot)"
    by (simp add: same_but_cancel_time_iff init_cycle_def)
  have s0': "same_but_cancel_time
      ((init_cycle lct1 lot)\<lparr>actions := actions (init_cycle lct1 lot) @ [StartFeed]\<rparr>)
      ((init_cycle lct2 lot)\<lparr>actions := actions (init_cycle lct2 lot) @ [StartFeed]\<rparr>)"
    by (simp add: same_but_cancel_time_iff init_cycle_def)
  have phases: "?R
      (case part_one e d os (trading_pairs e) (init_cycle lct1 lot) of
         Inl x \<Rightarrow> Inl x
       | Inr s1 \<Rightarrow>
           (case (if (if num_cancels_unprofitable s1 > 0 then 1 else 0 :: nat) = 0
                  then part_two e d os (trading_pairs e) s1 else Inr s1) of
              Inl x \<Rightarrow> Inl x
            | Inr s2 \<Rightarrow>
                if (if num_cancels_outbid s2 > 0 then 1
                    else (if num_cancels_unprofitable s1 > 0 then 1 else 0 :: nat)) = 0
                then part_three e d os (trading_pairs e) s2
                else Inr s2))
      (case part_one e d os (trading_pairs e) (init_cycle lct2 lot) of
         Inl x \<Rightarrow> Inl x
       | Inr s1 \<Rightarrow>
           (case (if (if num_cancels_unprofitable s1 > 0 then 1 else 0 :: nat) = 0
                  then part_two e d os (trading_pairs e) s1 else Inr s1) of
              Inl x \<Rightarrow> Inl x
            | Inr s2 \<Rightarrow>
                if (if num_cancels_outbid s2 > 0 then 1
                    else (if num_cancels_unprofitable s1 > 0 then 1 else 0 :: nat)) = 0
                then part_three e d os (trading_pairs e) s2
                else Inr s2))"
    for d os
  proof (rule rel_sum_bind [OF same_part_one [OF s0]])
    fix s1 t1
    assume s1: "same_but_cancel_time s1 t1"
    then have n1: "num_cancels_unprofitable s1 = num_cancels_unprofitable t1"
      by (simp add: same_but_cancel_time_iff)
    have two: "?R (if (if num_cancels_unprofitable s1 > 0 then 1 else 0 :: nat) = 0
                  then part_two e d os (trading_pairs e) s1 else Inr s1)
                 (if (if num_cancels_unprofitable t1 > 0 then 1 else 0 :: nat) = 0
                  then part_two e d os (trading_pairs e) t1 else Inr t1)"
      using s1 n1 same_part_two [OF s1] by simp
    show "?R
        (case (if (if num_cancels_unprofitable s1 > 0 then 1 else 0 :: nat) = 0
                  then part_two e d os (trading_pairs e) s1 else Inr s1) of
              Inl x \<Rightarrow> Inl x
            | Inr s2 \<Rightarrow>
                if (if num_cancels_outbid s2 > 0 then 1
                    else (if num_cancels_unprofitable s1 > 0 then 1 else 0 :: nat)) = 0
                then part_three e d os (trading_pairs e) s2
                else Inr s2)
        (case (if (if num_cancels_unprofitable t1 > 0 then 1 else 0 :: nat) = 0
                  then part_two e d os (trading_pairs e) t1 else Inr t1) of
              Inl x \<Rightarrow> Inl x
            | Inr s2 \<Rightarrow>
                if (if num_cancels_outbid s2 > 0 then 1
                    else (if num_cancels_unprofitable t1 > 0 then 1 else 0 :: nat)) = 0
                then part_three e d os (trading_pairs e) s2
                else Inr s2)"
    proof (rule rel_sum_bind [OF two])
      fix s2 t2
      assume s2: "same_but_cancel_time s2 t2"
      then have n2: "num_cancels_outbid s2 = num_cancels_outbid t2"
        by (simp add: same_but_cancel_time_iff)
      show "?R
          (if (if num_cancels_outbid s2 > 0 then 1
               else (if num_cancels_unprofitable s1 > 0 then 1 else 0 :: nat)) = 0
           then part_three e d os (trading_pairs e) s2
           else Inr s2)
          (if (if num_cancels_outbid t2 > 0 then 1
               else (if num_cancels_unprofitable t1 > 0 then 1 else 0 :: nat)) = 0
           then part_three e d os (trading_pairs e) t2
           else Inr t2)"
        using s2 n1 n2 same_part_three [OF s2] by simp
    qed
  qed
  show ?thesis
    unfolding on_tick_def Let_def
    using s0 s0' phases
    by (auto split: loaded.splits sum.splits)
qed

text \<open>
  Claim C10. The class body sets \<open>last_cancel_time\<close> of every configured pair to \<open>0\<close> and
  \<open>last_order_time\<close> of every configured pair to a reading of the startup clock. In a cycle
  whose clock readings are all less than \<open>time_between_orders_for_trading_pair\<close> (5 seconds)
  after those startup readings, no candidate is accepted, no order is placed and
  \<open>last_order_time\<close> is unchanged; Part Three, when it runs, records every pair as a
  time-debounce skip. \<open>last_cancel_time\<close> is never read: two cycles that differ only in
  \<open>last_cancel_time\<close> make the same calls, raise or return alike, and end in states that
  differ at most in \<open>last_cancel_time\<close>.
\<close>

theorem startup_debounce:
  assumes "\<forall>j < length (trading_pairs e). \<forall>k.
             clock e k < clk j + time_between_orders_for_trading_pair"
    and "lct = init_last_cancel_time (trading_pairs e) Map.empty"
    and "lot = init_last_order_time clk 0 (trading_pairs e) Map.empty"
  shows "(\<forall>tp \<in> set (trading_pairs e).
            lct tp = Some 0 \<and> (\<exists>j < length (trading_pairs e). lot tp = Some (clk j))) \<and>
         num_orders (final (on_tick e lct lot)) = 0 \<and>
         list_all (\<lambda>a. \<not> places_order a) (actions (final (on_tick e lct lot))) \<and>
         last_order_time (final (on_tick e lct lot)) = lot \<and>
         (\<forall>d os s. num_orders s = 0 \<and> last_order_time s = lot \<longrightarrow>
            part_three e d os (trading_pairs e) s =
              Inr (s\<lparr>ticks := ticks s + length (trading_pairs e),
                     skip_proposal_for_time :=
                       skip_proposal_for_time s + length (trading_pairs e)\<rparr>)) \<and>
         (\<forall>lct1 lct2 lot'.
            rel_sum (rel_prod (=) same_but_cancel_time) same_but_cancel_time
              (on_tick e lct1 lot') (on_tick e lct2 lot'))"
proof -
  have dicts: "\<forall>tp \<in> set (trading_pairs e).
      lct tp = Some 0 \<and> (\<exists>j < length (trading_pairs e). lot tp = Some (clk j))"
    using init_last_cancel_time_in [of _ "trading_pairs e" Map.empty]
      init_last_order_time_in [of _ "trading_pairs e" clk 0 Map.empty]
    by (auto simp: assms(2,3))
  have window: "\<forall>tp \<in> set (trading_pairs e). \<exists>t. lot tp = Some t \<and>
      (\<forall>k. clock e k < t + time_between_orders_for_trading_pair)"
  proof
    fix tp assume "tp \<in> set (trading_pairs e)"
    with dicts obtain j where "j < length (trading_pairs e)" "lot tp = Some (clk j)"
      by blast
    with assms(1) show "\<exists>t. lot tp = Some t \<and>
        (\<forall>k. clock e k < t + time_between_orders_for_trading_pair)"
      by blast
  qed
  have three: "part_three e d os (trading_pairs e) s =
      Inr (s\<lparr>ticks := ticks s + length (trading_pairs e),
             skip_proposal_for_time := skip_proposal_for_time s + length (trading_pairs e)\<rparr>)"
    if "num_orders s = 0" "last_order_time s = lot" for d os s
    using that window by (intro part_three_all_debounced) simp_all
  have cycle: "num_orders (final (on_tick e lct lot)) = 0 \<and>
      list_all (\<lambda>a. \<not> places_order a) (actions (final (on_tick e lct lot))) \<and>
      last_order_time (final (on_tick e lct lot)) = lot"
    using on_tick_cases [of lot e lct]
  proof
    assume "proposals_idle lot (final (on_tick e lct lot)) \<and>
      (0 < num_cancels_unprofitable (final (on_tick e lct lot)) \<longrightarrow>
         num_cancels_outbid (final (on_tick e lct lot)) = 0)"
    then show ?thesis by (simp add: proposals_idle_def)
  next
    assume "\<exists>d os s2. proposals_idle lot s2 \<and>
      num_cancels_unprofitable s2 = 0 \<and> num_cancels_outbid s2 = 0 \<and>
      on_tick e lct lot = part_three e d os (trading_pairs e) s2"
    then obtain d os s2 where idle: "proposals_idle lot s2"
      and run: "on_tick e lct lot = part_three e d os (trading_pairs e) s2" by blast
    from idle have "num_orders s2 = 0" "last_order_time s2 = lot"
      by (simp_all add: proposals_idle_def)
    from three [OF this] run idle show ?thesis
      by (simp add: final_def proposals_idle_def)
  qed
  from dicts cycle three same_on_tick show ?thesis by blast
qed

theorem startup_debounce_witness:
  "clock two_pairs_at_100 0 < 98 + time_between_orders_for_trading_pair \<and>
   init_last_cancel_time (trading_pairs two_pairs_at_100) Map.empty ''QLC-BTC'' = Some 0 \<and>
   init_last_order_time (\<lambda>k. 98 + of_nat k) 0 (trading_pairs two_pairs_at_100) Map.empty
     ''QLC-BTC'' = Some 99 \<and>
   num_orders (final (on_tick two_pairs_at_100
     (init_last_cancel_time (trading_pairs two_pairs_at_100) Map.empty)
     (init_last_order_time (\<lambda>k. 98 + of_nat k) 0 (trading_pairs two_pairs_at_100) Map.empty))) = 0 \<and>
   actions (final (on_tick two_pairs_at_100
     (init_last_cancel_time (trading_pairs two_pairs_at_100) Map.empty)
     (init_last_order_time (\<lambda>k. 98 + of_nat k) 0 (trading_pairs two_pairs_at_100) Map.empty))) = [] \<and>
   skip_proposal_for_time (final (on_tick two_pairs_at_100
     (init_last_cancel_time (trading_pairs two_pairs_at_100) Map.empty)
     (init_last_order_time (\<lambda>k. 98 + of_nat k) 0 (trading_pairs two_pairs_at_100) Map.empty))) = 2 \<and>
   last_order_time (final (on_tick two_pairs_at_100
     (init_last_cancel_time (trading_pairs two_pairs_at_100) Map.empty)
     (init_last_order_time (\<lambda>k. 98 + of_nat k) 0 (trading_pairs two_pairs_at_100) Map.empty))) =
     init_last_order_time (\<lambda>k. 98 + of_nat k) 0 (trading_pairs two_pairs_at_100) Map.empty"
proof -
  let ?e = two_pairs_at_100
  let ?clk = "\<lambda>k. 98 + of_nat k :: rat"
  let ?lct = "init_last_cancel_time (trading_pairs ?e) Map.empty"
  let ?lot = "init_last_order_time ?clk 0 (trading_pairs ?e) Map.empty"
  have tps: "trading_pairs ?e = [''DUSK-BTC'', ''QLC-BTC'']"
    by (simp add: two_pairs_at_100_def two_pairs_def)
  have w: "\<forall>j < length (trading_pairs ?e). \<forall>k.
      clock ?e k < ?clk j + time_between_orders_for_trading_pair"
    by (simp add: two_pairs_at_100_def two_pairs_def time_between_orders_for_trading_pair_def)
  note sd = startup_debounce [OF w refl refl]
  have a: "?lct ''QLC-BTC'' = Some 0" by (simp add: tps)
  have b: "?lot ''QLC-BTC'' = Some 99" by (simp add: tps)
  have c: "skip_proposal_for_time (final (on_tick ?e ?lct ?lot)) = 2" by code_simp
  have d: "actions (final (on_tick ?e ?lct ?lot)) = []" by code_simp
  have f: "clock ?e 0 < 98 + time_between_orders_for_trading_pair"
    by (simp add: two_pairs_at_100_def two_pairs_def time_between_orders_for_trading_pair_def)
  from sd a b c d f show ?thesis by blast
qed

end
